theory Spec2Isabelle
  imports Complex_Main "HOL-Library.AList"
begin

section \<open>The relay server of the GSN: data model\<close>

text \<open>
  The development embeds the class \<open>RelayServer\<close>. A JavaScript \<open>number\<close> that
  holds a block number, a nonce, a gas amount or a counter is an \<open>int\<close> (exact
  below \<open>2 ^ 53\<close>); a \<open>BN\<close> is an \<open>int\<close>; an \<open>IntString\<close> (a decimal
  integer carried in a string) is the \<open>int\<close> that \<open>parseInt\<close> and \<open>toBN\<close>
  read from it. Addresses and hashes are strings. Names that start with an
  underscore in the source lose it here (\<open>_worker\<close> is \<open>worker\<close>).
\<close>

type_synonym PrefixedHexString = string
type_synonym IntString = int

text \<open>
  Modelled from the spec: the enumeration \<open>ServerAction\<close> of
  \<open>StoredTransaction\<close>, listed in the data model of the specification.
\<close>

datatype ServerAction =
    REGISTER_SERVER | ADD_WORKER | AUTHORIZE_HUB | STAKE | UNSTAKE
  | RELAY_CALL | VALUE_TRANSFER | DEPOSIT_WITHDRAWAL | SET_OWNER

text \<open>
  Modelled from the spec: the gas limits of a paymaster, the three amounts that
  the admission pipeline reads (acceptance budget, gas before and after the
  relayed call).
\<close>

record PaymasterGasLimits =
  acceptanceBudget :: IntString
  paymasterPreGas :: IntString
  paymasterPostGas :: IntString

record RelayData =
  gasPrice :: IntString
  pctRelayFee :: IntString
  baseRelayFee :: IntString
  relayWorker :: string
  paymaster :: string

record ForwardRequest =
  gas :: IntString

record RelayRequest =
  request :: ForwardRequest
  relayData :: RelayData

record RelayMetadata =
  relayHubAddress :: string
  relayMaxNonce :: int
  signature :: PrefixedHexString
  approvalData :: PrefixedHexString

record RelayTransactionRequest =
  relayRequest :: RelayRequest
  metadata :: RelayMetadata

record EventData =
  event :: string
  blockNumber :: int

datatype ContractMethod =
    relayCall int RelayRequest PrefixedHexString PrefixedHexString int
  | withdraw int PrefixedHexString

record SendTransactionDetails =
  signer :: PrefixedHexString
  serverAction :: ServerAction
  txMethod :: "ContractMethod option"
  destination :: PrefixedHexString
  "value" :: "int option"
  gasLimit :: int
  txGasPrice :: "IntString option"
  creationBlockNumber :: int

record SendResult =
  transactionHash :: PrefixedHexString
  signedTx :: PrefixedHexString

record ServerConfigParams =
  devMode :: bool
  readyTimeout :: int
  workerMinBalance :: int
  workerTargetBalance :: int
  managerMinBalance :: int
  managerTargetBalance :: int
  minHubWithdrawalBalance :: int
  cfgPctRelayFee :: int
  cfgBaseRelayFee :: IntString
  maxAcceptanceBudget :: int
  gasPriceFactor :: rat
  trustedPaymasters :: "string list"
  registrationBlockRate :: int
  refreshStateTimeoutBlocks :: int
  successfulRoundsForReady :: int
  alertedBlockDelay :: int
  minAlertedDelayMS :: int
  maxAlertedDelayMS :: int

text \<open>
  Modelled from the spec: \<open>AmountRequired\<close>, a required and a current amount,
  satisfied when the current amount has reached the required one. Its own log
  lines are left out.
\<close>

record AmountRequired =
  requiredValue :: int
  currentValue :: int

definition isSatisfied :: "AmountRequired \<Rightarrow> bool" where
  "isSatisfied a \<longleftrightarrow> requiredValue a \<le> currentValue a"

subsection \<open>Errors and effects\<close>

text \<open>
  A thrown \<open>Error\<close> carries the fixed leading text of its message; the values
  interpolated into a message are left out. \<open>process.exit\<close> ends the run and is an
  error value of its own.
\<close>

datatype error = Error string | ProcessExit int

text \<open>
  What the server does to the outside is recorded, in order, in a trace: each
  call of \<open>transactionManager.sendTransaction\<close> with its details, each event
  emitted by the facade, the warnings and errors written to the logger (debug
  and info lines are left out), each other call to a collaborator by name, the
  call of \<open>registrationManager.handlePastEvents\<close> with its arguments (events,
  first and last block, the hint to register again), the watchdog timer, and
  the throttling sleep.
\<close>

datatype effect =
    SendTransaction SendTransactionDetails
  | Emit string
  | LogWarn string
  | LogError string
  | Call string
  | HandlePastEvents "EventData list" int int bool
  | SetTimeout int
  | ClearTimeout
  | Sleep int

record RelayServer =
  lastScannedBlock :: int
  lastRefreshBlock :: int
  ready :: bool
  lastSuccessfulRounds :: int
  managerAddress :: PrefixedHexString
  workerAddress :: PrefixedHexString
  srvGasPrice :: int
  workerSemaphoreOn :: bool
  alerted :: bool
  alertedBlock :: int
  initialized :: bool
  config :: ServerConfigParams
  lastMinedActiveTransaction :: "EventData option"
  chainId :: "int option"
  networkId :: "int option"
  relayHubContract :: "PrefixedHexString option"
  trustedPaymastersGasLimits :: "(string \<times> PaymasterGasLimits) list"
  workerBalanceRequired :: AmountRequired
  trace :: "effect list"

text \<open>
  \<open>relayHubContract\<close> holds the address of the hub instance; it is undefined
  (\<open>None\<close>) until \<open>init\<close> has stored it, and so are \<open>chainId\<close> and
  \<open>networkId\<close>. The map of trusted paymasters is an association list in
  insertion order.
\<close>

subsection \<open>Asynchronous code as state passing with errors\<close>

text \<open>
  A method of the server takes the state and returns the new state with either
  the error it threw (the promise it returned was rejected) or its value. An
  error keeps the state reached when it was thrown.
\<close>

type_synonym 'a io = "RelayServer \<Rightarrow> RelayServer \<times> (error + 'a)"

definition resolve :: "'a \<Rightarrow> 'a io" where
  "resolve x s = (s, Inr x)"

definition reject :: "error \<Rightarrow> 'a io" where
  "reject e s = (s, Inl e)"

definition await :: "'a io \<Rightarrow> ('a \<Rightarrow> 'b io) \<Rightarrow> 'b io" where
  "await m f s = (case m s of (s', Inl e) \<Rightarrow> (s', Inl e) | (s', Inr x) \<Rightarrow> f x s')"

definition record_effect :: "effect \<Rightarrow> unit io" where
  "record_effect x s = (s\<lparr>trace := trace s @ [x]\<rparr>, Inr ())"

definition assign :: "(RelayServer \<Rightarrow> RelayServer) \<Rightarrow> unit io" where
  "assign f s = (f s, Inr ())"

text \<open>
  A call to a collaborator (chain access, transaction manager, store,
  registration manager) is recorded and answers what the environment of this run
  says it answers: a value, or the error of a rejected call.
\<close>

definition call :: "string \<Rightarrow> error + 'a \<Rightarrow> 'a io" where
  "call name answer s = (s\<lparr>trace := trace s @ [Call name]\<rparr>, answer)"

definition sendTransaction :: "SendTransactionDetails \<Rightarrow> error + SendResult \<Rightarrow> SendResult io" where
  "sendTransaction details answer s = (s\<lparr>trace := trace s @ [SendTransaction details]\<rparr>, answer)"

text \<open>
  Reading the state (\<open>this\<close>), catching a thrown \<open>Error\<close>, and a
  \<open>finally\<close> block. Once \<open>process.exit\<close> was called nothing runs any more:
  neither is a handler for it.
\<close>

definition self :: "RelayServer io" where
  "self s = (s, Inr s)"

definition orCatch :: "'a io \<Rightarrow> (string \<Rightarrow> 'a io) \<Rightarrow> 'a io" where
  "orCatch m handler s =
     (case m s of
        (s', Inl (Error msg)) \<Rightarrow> handler msg s'
      | (s', Inl (ProcessExit code)) \<Rightarrow> (s', Inl (ProcessExit code))
      | (s', Inr x) \<Rightarrow> (s', Inr x))"

definition andFinally :: "'a io \<Rightarrow> unit io \<Rightarrow> 'a io" where
  "andFinally m cleanup s =
     (case m s of
        (s', Inl (ProcessExit code)) \<Rightarrow> (s', Inl (ProcessExit code))
      | (s', r) \<Rightarrow>
          (case cleanup s' of
             (s'', Inl e) \<Rightarrow> (s'', Inl e)
           | (s'', Inr _) \<Rightarrow> (s'', r)))"

definition fails :: "'a io \<Rightarrow> RelayServer \<Rightarrow> bool" where
  "fails m s \<longleftrightarrow> isl (snd (m s))"

text \<open>
The effects of one run of a method, and the transactions it submitted.
\<close>

definition newEffects :: "RelayServer \<Rightarrow> RelayServer \<Rightarrow> effect list" where
  "newEffects s s' = drop (length (trace s)) (trace s')"

definition during :: "'a io \<Rightarrow> RelayServer \<Rightarrow> effect list" where
  "during m s = newEffects s (fst (m s))"

fun sentTransactions :: "effect list \<Rightarrow> SendTransactionDetails list" where
  "sentTransactions [] = []"
| "sentTransactions (SendTransaction d # es) = d # sentTransactions es"
| "sentTransactions (e # es) = sentTransactions es"

subsection \<open>Strings\<close>

text \<open>
  \<open>toLowerCase\<close> on the ASCII letters, which is all an address contains.
\<close>

definition lowerChar :: "char \<Rightarrow> char" where
  "lowerChar c =
     (case map_of (zip ''ABCDEFGHIJKLMNOPQRSTUVWXYZ'' ''abcdefghijklmnopqrstuvwxyz'') c of
        Some l \<Rightarrow> l
      | None \<Rightarrow> c)"

definition toLowerCase :: "string \<Rightarrow> string" where
  "toLowerCase str = map lowerChar str"

fun js_includes :: "string \<Rightarrow> string \<Rightarrow> bool" where
  "js_includes [] sub \<longleftrightarrow> sub = []"
| "js_includes (c # cs) sub \<longleftrightarrow> take (length sub) (c # cs) = sub \<or> js_includes cs sub"

section \<open>Readiness\<close>

text \<open>
  \<open>Number.MAX_SAFE_INTEGER\<close>, the first value of \<open>lastSuccessfulRounds\<close>.
  The increment of a \<open>number\<close> is exact up to \<open>2 ^ 53\<close> and stays there.
\<close>

definition MAX_SAFE_INTEGER :: int where
  "MAX_SAFE_INTEGER = 2 ^ 53 - 1"

definition increment :: "int \<Rightarrow> int" where
  "increment n = (if n < 2 ^ 53 then n + 1 else n)"

definition isReady :: "RelayServer \<Rightarrow> bool" where
  "isReady s =
     (if lastSuccessfulRounds s < successfulRoundsForReady (config s) then False
      else ready s)"

definition setReadyState :: "bool \<Rightarrow> unit io" where
  "setReadyState isReadyArg =
     await (self) (\<lambda>srv.
     await ((if isReady srv \<noteq> isReadyArg
             then (if isReadyArg
                   then (if lastSuccessfulRounds srv < successfulRoundsForReady (config srv)
                         then record_effect (LogWarn ''Relayer state: almost READY'')
                         else record_effect (LogWarn ''Relayer state: READY''))
                   else record_effect (LogWarn ''Relayer state: NOT-READY''))
             else resolve ())) (\<lambda>_.
     assign (\<lambda>s. s\<lparr>ready := isReadyArg\<rparr>)))"

section \<open>The admission pipeline\<close>

definition isTrustedPaymaster :: "RelayServer \<Rightarrow> string \<Rightarrow> bool" where
  "isTrustedPaymaster s pm \<longleftrightarrow> map_of (trustedPaymastersGasLimits s) (toLowerCase pm) \<noteq> None"

text \<open>
  Reading a member of \<open>this.relayHubContract\<close>: on a server whose hub instance
  is not yet stored, the read throws a \<open>TypeError\<close>.
\<close>

definition hubInstance :: "PrefixedHexString io" where
  "hubInstance =
     await (self) (\<lambda>srv.
     (case relayHubContract srv of
        None \<Rightarrow> reject (Error ''TypeError'')
      | Some hubAddress \<Rightarrow> resolve hubAddress))"

definition validateInput :: "RelayTransactionRequest \<Rightarrow> unit io" where
  "validateInput req =
     await (self) (\<lambda>srv.
     await (hubInstance) (\<lambda>hubAddress.
     (if relayHubAddress (metadata req) \<noteq> hubAddress
      then reject (Error ''Wrong hub address.'')
      else if toLowerCase (relayWorker (relayData (relayRequest req))) \<noteq> toLowerCase (workerAddress srv)
      then reject (Error ''Wrong worker address'')
      else if srvGasPrice srv > gasPrice (relayData (relayRequest req))
      then reject (Error ''Unacceptable gasPrice'')
      else resolve ())))"

definition validateFees :: "RelayTransactionRequest \<Rightarrow> unit io" where
  "validateFees req =
     await (self) (\<lambda>srv.
     (if isTrustedPaymaster srv (paymaster (relayData (relayRequest req))) then resolve ()
      else if pctRelayFee (relayData (relayRequest req)) < cfgPctRelayFee (config srv)
      then reject (Error ''Unacceptable pctRelayFee'')
      else if baseRelayFee (relayData (relayRequest req)) < cfgBaseRelayFee (config srv)
      then reject (Error ''Unacceptable baseRelayFee'')
      else resolve ()))"

subsection \<open>Replenishing the worker\<close>

text \<open>
  What the collaborators answer during one call of \<open>replenishServer\<close>, one
  field for each place where the method calls out. The manager balance is read
  twice. \<open>mintxgascost\<close> stands for the constant
  \<open>defaultEnvironment.mintxgascost\<close>.
\<close>

record ReplenishEnv =
  getManagerBalance_first :: "error + int"
  balanceOf_manager :: "error + int"
  getWorkerBalance_answer :: "error + int"
  isWithdrawalPending_answer :: "error + bool"
  attemptEstimateGas_answer :: "error + int"
  sendWithdraw_answer :: "error + SendResult"
  getManagerBalance_second :: "error + int"
  isReplenishPending_answer :: "error + bool"
  sendTransfer_answer :: "error + SendResult"
  mintxgascost :: int

definition setWorkerBalance :: "int \<Rightarrow> unit io" where
  "setWorkerBalance v =
     assign (\<lambda>s. s\<lparr>workerBalanceRequired := (workerBalanceRequired s)\<lparr>currentValue := v\<rparr>\<rparr>)"

definition replenishServer :: "ReplenishEnv \<Rightarrow> int \<Rightarrow> int \<Rightarrow> PrefixedHexString list io" where
  "replenishServer env workerIndex currentBlock =
     await (call ''getManagerBalance'' (getManagerBalance_first env)) (\<lambda>managerEthBalance.
     await (hubInstance) (\<lambda>hubAddress.
     await (call ''relayHubContract.balanceOf(managerAddress)'' (balanceOf_manager env)) (\<lambda>managerHubBalance.
     await (call ''getWorkerBalance'' (getWorkerBalance_answer env)) (\<lambda>workerBalance.
     await (setWorkerBalance workerBalance) (\<lambda>_.
     await (self) (\<lambda>srv.
     (if managerTargetBalance (config srv) \<le> managerEthBalance \<and> isSatisfied (workerBalanceRequired srv)
      then resolve []
      else (let mustWithdrawHubDeposit = managerEthBalance < managerTargetBalance (config srv) \<and>
               minHubWithdrawalBalance (config srv) \<le> managerHubBalance in
            await (call ''txStoreManager.isActionPending(DEPOSIT_WITHDRAWAL)'' (isWithdrawalPending_answer env)) (\<lambda>isWithdrawalPending.
            await ((if mustWithdrawHubDeposit \<and> \<not> isWithdrawalPending
                    then await (call ''transactionManager.attemptEstimateGas'' (attemptEstimateGas_answer env)) (\<lambda>estimate.
                         await (sendTransaction
                                  \<lparr>signer = managerAddress srv, serverAction = DEPOSIT_WITHDRAWAL,
                                   txMethod = Some (withdraw managerHubBalance (managerAddress srv)),
                                   destination = hubAddress, value = None, gasLimit = estimate,
                                   txGasPrice = None, creationBlockNumber = currentBlock\<rparr>
                                  (sendWithdraw_answer env)) (\<lambda>sent.
                         resolve [transactionHash sent]))
                    else resolve [])) (\<lambda>transactionHashes.
            await (call ''getManagerBalance'' (getManagerBalance_second env)) (\<lambda>managerEthBalance2.
            (let mustReplenishWorker = \<not> isSatisfied (workerBalanceRequired srv) in
             await (call ''txStoreManager.isActionPending(VALUE_TRANSFER, workerAddress)''
                      (isReplenishPending_answer env)) (\<lambda>isReplenishPendingForWorker.
             (if mustReplenishWorker \<and> \<not> isReplenishPendingForWorker
              then (let refill = workerTargetBalance (config srv) - currentValue (workerBalanceRequired srv) in
                    (if refill < managerEthBalance2 - managerMinBalance (config srv)
                     then await (sendTransaction
                                   \<lparr>signer = managerAddress srv, serverAction = VALUE_TRANSFER, txMethod = None,
                                    destination = workerAddress srv, value = Some refill,
                                    gasLimit = mintxgascost env, txGasPrice = None,
                                    creationBlockNumber = currentBlock\<rparr>
                                   (sendTransfer_answer env)) (\<lambda>sent.
                          resolve (transactionHashes @ [transactionHash sent]))
                     else await (record_effect (Emit ''fundingNeeded'')) (\<lambda>_.
                          await (record_effect (LogError ''== replenishServer: can't replenish: mgr balance too low'')) (\<lambda>_.
                          resolve transactionHashes))))
              else resolve transactionHashes))))))))))))))"

subsection \<open>Validations that call out\<close>

text \<open>
  What the collaborators answer during one call of \<open>createRelayTransaction\<close>.
  \<open>ow_exactShape\<close> says whether the body of the request has the declared
  shape. \<open>paymaster_getGasLimits\<close> is the answer of creating the paymaster
  instance and asking it for its gas limits.
\<close>

record AdmissionEnv =
  ow_exactShape :: bool
  pollNonce_answer :: "error + int"
  paymaster_getGasLimits :: "error + PaymasterGasLimits"
  gasOverhead_answer :: "error + int"
  calculateCharge_answer :: "error + int"
  balanceOf_paymaster :: "error + int"
  viewRelayCall_answer :: "error + (bool \<times> string)"
  getBlockNumber_answer :: "error + int"
  sendRelay_answer :: "error + SendResult"
  admissionReplenishEnv :: ReplenishEnv
  randomInRange_answer :: int

definition GAS_RESERVE :: int where
  "GAS_RESERVE = 100000"

definition validateInputTypes :: "AdmissionEnv \<Rightarrow> RelayTransactionRequest \<Rightarrow> unit io" where
  "validateInputTypes env req =
     (if ow_exactShape env then resolve () else reject (Error ''ArgumentError''))"

definition validateMaxNonce :: "AdmissionEnv \<Rightarrow> int \<Rightarrow> unit io" where
  "validateMaxNonce env maxNonce =
     await (call ''transactionManager.pollNonce(workerAddress)'' (pollNonce_answer env)) (\<lambda>nonce.
     (if nonce > maxNonce then reject (Error ''Unacceptable relayMaxNonce'') else resolve ()))"

text \<open>
  Modelled from the spec: \<open>calculateTransactionMaxPossibleGas\<close> adds the hub
  overhead, the gas of the paymaster before the call, the gas of the request and
  the gas of the paymaster after the call.
\<close>

definition calculateTransactionMaxPossibleGas :: "PaymasterGasLimits \<Rightarrow> int \<Rightarrow> IntString \<Rightarrow> int" where
  "calculateTransactionMaxPossibleGas gasLimits hubOverhead relayCallGasLimit =
     hubOverhead + paymasterPreGas gasLimits + relayCallGasLimit + paymasterPostGas gasLimits"

definition paymasterErrorMessage :: "string \<Rightarrow> string \<Rightarrow> string" where
  "paymasterErrorMessage pm msg =
     (if js_includes msg ''Returned values aren't valid, did it run Out of Gas?''
      then ''not a valid paymaster contract: '' @ pm
      else if js_includes msg ''no code at address''
      then CHR 0x27 # ''non-existent paymaster contract: '' @ pm
      else ''unknown paymaster error: '' @ msg)"

definition validatePaymasterGasLimits :: "AdmissionEnv \<Rightarrow> RelayTransactionRequest \<Rightarrow> (int \<times> int) io" where
  "validatePaymasterGasLimits env req =
     (let pm = paymaster (relayData (relayRequest req)) in
      await (self) (\<lambda>srv.
      await ((case map_of (trustedPaymastersGasLimits srv) pm of
                None \<Rightarrow>
                  await (orCatch (call ''paymaster.getGasLimits'' (paymaster_getGasLimits env))
                           (\<lambda>msg. reject (Error (paymasterErrorMessage pm msg)))) (\<lambda>gasLimits.
                  (let paymasterAcceptanceBudget = acceptanceBudget gasLimits in
                   (if paymasterAcceptanceBudget > maxAcceptanceBudget (config srv)
                    then (if \<not> isTrustedPaymaster srv pm
                          then reject (Error ''paymaster acceptance budget too high.'')
                          else resolve (gasLimits, paymasterAcceptanceBudget))
                    else resolve (gasLimits, maxAcceptanceBudget (config srv)))))
              | Some gasLimits \<Rightarrow> resolve (gasLimits, acceptanceBudget gasLimits))) (\<lambda>limitsAndBudget.
      await (hubInstance) (\<lambda>hubAddress.
      await (call ''relayHubContract.gasOverhead'' (gasOverhead_answer env)) (\<lambda>hubOverhead.
      (let maxPossibleGas = GAS_RESERVE + calculateTransactionMaxPossibleGas (fst limitsAndBudget) hubOverhead
            (gas (request (relayRequest req))) in
       await (call ''relayHubContract.calculateCharge'' (calculateCharge_answer env)) (\<lambda>maxCharge.
       await (call ''relayHubContract.balanceOf(paymaster)'' (balanceOf_paymaster env)) (\<lambda>paymasterBalance.
       (if paymasterBalance < maxCharge then reject (Error ''paymaster balance too low'')
        else resolve (snd limitsAndBudget, maxPossibleGas))))))))))"

definition validateViewCallSucceeds :: "AdmissionEnv \<Rightarrow> RelayTransactionRequest \<Rightarrow> int \<Rightarrow> int \<Rightarrow> unit io" where
  "validateViewCallSucceeds env req budget maxPossibleGas =
     await (hubInstance) (\<lambda>hubAddress.
     await (orCatch (call ''relayHubContract.relayCall.call'' (viewRelayCall_answer env))
              (\<lambda>msg. reject (Error (''relayCall reverted in server: '' @ msg)))) (\<lambda>viewRelayCallRet.
     (if \<not> fst viewRelayCallRet then reject (Error ''Paymaster rejected in server'')
      else resolve ())))"

definition createRelayTransaction :: "AdmissionEnv \<Rightarrow> RelayTransactionRequest \<Rightarrow> PrefixedHexString io" where
  "createRelayTransaction env req =
     await (self) (\<lambda>srv.
     (if \<not> isReady srv
      then reject (Error ''relay not ready'')
      else await (validateInputTypes env req) (\<lambda>_.
           await (validateInput req) (\<lambda>_.
           await (validateFees req) (\<lambda>_.
           await (validateMaxNonce env (relayMaxNonce (metadata req))) (\<lambda>_.
           await (validatePaymasterGasLimits env req) (\<lambda>gasParams.
           await (validateViewCallSucceeds env req (fst gasParams) (snd gasParams)) (\<lambda>_.
           await (hubInstance) (\<lambda>hubAddress.
           await (call ''contractInteractor.getBlockNumber'' (getBlockNumber_answer env)) (\<lambda>currentBlock.
           await (sendTransaction
                    \<lparr>signer = workerAddress srv, serverAction = RELAY_CALL,
                     txMethod = Some (relayCall (fst gasParams) (relayRequest req) (signature (metadata req))
                                        (approvalData (metadata req)) (snd gasParams)),
                     destination = relayHubAddress (metadata req), value = None,
                     gasLimit = snd gasParams,
                     txGasPrice = Some (gasPrice (relayData (relayRequest req))),
                     creationBlockNumber = currentBlock\<rparr>
                    (sendRelay_answer env)) (\<lambda>sent.
           await (replenishServer (admissionReplenishEnv env) 0 currentBlock) (\<lambda>_.
           await (self) (\<lambda>srv2.
           await ((if alerted srv2
                   then await (record_effect (LogError ''Alerted state: slowing down traffic'')) (\<lambda>_.
                        record_effect (Sleep (randomInRange_answer env)))
                   else resolve ())) (\<lambda>_.
           resolve (signedTx sent)))))))))))))))"

section \<open>Initialisation\<close>

text \<open>
  What the collaborators answer during one call of \<open>init\<close>. Creating a
  paymaster instance and reading its gas limits are answered per address.
\<close>

record InitEnv =
  transactionManager_init :: "error + unit"
  createPaymaster_answer :: "string \<Rightarrow> error + unit"
  getGasLimits_answer :: "string \<Rightarrow> error + PaymasterGasLimits"
  relayHubInstance_answer :: "error + PrefixedHexString"
  getCode_answer :: "error + string"
  registrationManager_init :: "error + unit"
  getChainId_answer :: "error + int"
  getNetworkId_answer :: "error + int"
  getBlock_init :: "error + int"

definition fatal :: "string \<Rightarrow> 'a io" where
  "fatal message =
     await (record_effect (LogError (''FATAL: '' @ message))) (\<lambda>_. reject (ProcessExit 1))"

fun initTrustedPaymasters_loop :: "InitEnv \<Rightarrow> string list \<Rightarrow> unit io" where
  "initTrustedPaymasters_loop env [] = resolve ()"
| "initTrustedPaymasters_loop env (paymasterAddress # paymasters) =
     await (call ''contractInteractor._createPaymaster'' (createPaymaster_answer env paymasterAddress)) (\<lambda>_.
     await (orCatch (call ''paymaster.getGasLimits'' (getGasLimits_answer env paymasterAddress))
              (\<lambda>msg. reject (Error (''not a valid paymaster address in trustedPaymasters list: ''
                                      @ paymasterAddress @ '': '' @ msg)))) (\<lambda>gasLimits.
     await (assign (\<lambda>s. s\<lparr>trustedPaymastersGasLimits :=
                              AList.update (toLowerCase paymasterAddress) gasLimits
                                (trustedPaymastersGasLimits s)\<rparr>)) (\<lambda>_.
     initTrustedPaymasters_loop env paymasters)))"

definition initTrustedPaymasters :: "InitEnv \<Rightarrow> string list \<Rightarrow> unit io" where
  "initTrustedPaymasters env paymasters =
     await (assign (\<lambda>s. s\<lparr>trustedPaymastersGasLimits := []\<rparr>)) (\<lambda>_.
     initTrustedPaymasters_loop env paymasters)"

definition init :: "InitEnv \<Rightarrow> unit io" where
  "init env =
     await (self) (\<lambda>srv.
     (if initialized srv
      then reject (Error ''_init was already called'')
      else await (call ''transactionManager._init'' (transactionManager_init env)) (\<lambda>_.
           await (initTrustedPaymasters env (trustedPaymasters (config srv))) (\<lambda>_.
           await (call ''contractInteractor.relayHubInstance'' (relayHubInstance_answer env)) (\<lambda>hub.
           await (assign (\<lambda>s. s\<lparr>relayHubContract := Some hub\<rparr>)) (\<lambda>_.
           await (call ''contractInteractor.getCode'' (getCode_answer env)) (\<lambda>code.
           await ((if length code < 10 then fatal ''No RelayHub deployed at address'' else resolve ())) (\<lambda>_.
           await (call ''registrationManager.init'' (registrationManager_init env)) (\<lambda>_.
           await (call ''contractInteractor.getChainId'' (getChainId_answer env)) (\<lambda>cid.
           await (assign (\<lambda>s. s\<lparr>chainId := Some cid\<rparr>)) (\<lambda>_.
           await (call ''contractInteractor.getNetworkId'' (getNetworkId_answer env)) (\<lambda>nid.
           await (assign (\<lambda>s. s\<lparr>networkId := Some nid\<rparr>)) (\<lambda>_.
           await ((if devMode (config srv) \<and> (cid < 1000 \<or> nid < 1000)
                   then await (record_effect
                                 (LogError ''Don't use real network's chainId & networkId while in devMode.'')) (\<lambda>_.
                        reject (ProcessExit (- 1)))
                   else resolve ())) (\<lambda>_.
           await (call ''contractInteractor.getBlock(latest)'' (getBlock_init env)) (\<lambda>latestBlock.
           await (assign (\<lambda>s. s\<lparr>initialized := True\<rparr>)) (\<lambda>_.
           call ''registrationManager.printNotRegisteredMessage'' (Inr ())))))))))))))))))"

section \<open>The reconciliation loop\<close>

text \<open>
  What the collaborators answer during one tick, one field for each place where
  the loop calls out. \<open>balanceRequired_isSatisfied\<close> is what the registration
  manager reports after \<open>refreshBalance\<close>. \<open>readyTimeout_elapses\<close> says
  whether the watchdog timer of the tick, when one is armed, runs out before the
  tick has cleared it.
\<close>

record TickEnv =
  getBlock_latest :: "error + int"
  initEnv :: InitEnv
  getGasPrice_answer :: "error + IntString"
  refreshBalance_answer :: "error + unit"
  balanceRequired_isSatisfied :: bool
  getPastEventsForHub_answer :: "error + EventData list"
  isRelayCallPending_answer :: "error + bool"
  isRegisterServerPending_answer :: "error + bool"
  queryLatestActiveEvent_answer :: "error + EventData list"
  handlePastEvents_answer :: "error + PrefixedHexString list"
  removeConfirmedTransactions_answer :: "error + unit"
  boostManager_answer :: "error + PrefixedHexString option"
  boostWorker_answer :: "error + PrefixedHexString option"
  isRegistered_answer :: "error + bool"
  tickReplenishEnv :: ReplenishEnv
  getWorkerBalance_final :: "error + int"
  readyTimeout_elapses :: bool

definition refreshGasPrice :: "TickEnv \<Rightarrow> unit io" where
  "refreshGasPrice env =
     await (call ''contractInteractor.getGasPrice'' (getGasPrice_answer env)) (\<lambda>gasPriceString.
     await (assign (\<lambda>s. s\<lparr>srvGasPrice := \<lfloor>of_int gasPriceString * gasPriceFactor (config s)\<rfloor>\<rparr>)) (\<lambda>_.
     await (self) (\<lambda>srv.
     (if srvGasPrice srv = 0 then reject (Error ''Could not get gasPrice from node'')
      else resolve ()))))"

text \<open>
  Modelled from the spec: \<open>getLatestEventData\<close> gives the latest of a list of
  events, the one with the greatest block number, and nothing on an empty list.
\<close>

fun getLatestEventData :: "EventData list \<Rightarrow> EventData option" where
  "getLatestEventData [] = None"
| "getLatestEventData (e # es) =
     (case getLatestEventData es of
        None \<Rightarrow> Some e
      | Some l \<Rightarrow> if blockNumber e < blockNumber l then Some l else Some e)"

definition queryLatestActiveEvent :: "TickEnv \<Rightarrow> EventData option io" where
  "queryLatestActiveEvent env =
     await (call ''contractInteractor.getPastEventsForHub(fromBlock 1)''
              (queryLatestActiveEvent_answer env)) (\<lambda>events.
     resolve (getLatestEventData events))"

definition getLatestTxBlockNumber :: "TickEnv \<Rightarrow> EventData list \<Rightarrow> int io" where
  "getLatestTxBlockNumber env eventsSinceLastScan =
     (let latestTransactionSinceLastScan = getLatestEventData eventsSinceLastScan in
      await ((if latestTransactionSinceLastScan \<noteq> None
              then assign (\<lambda>s. s\<lparr>lastMinedActiveTransaction := latestTransactionSinceLastScan\<rparr>)
              else resolve ())) (\<lambda>_.
      await (self) (\<lambda>srv.
      await ((if lastMinedActiveTransaction srv = None
              then await (queryLatestActiveEvent env) (\<lambda>found.
                   assign (\<lambda>s. s\<lparr>lastMinedActiveTransaction := found\<rparr>))
              else resolve ())) (\<lambda>_.
      await (self) (\<lambda>srv2.
      resolve (case lastMinedActiveTransaction srv2 of Some e \<Rightarrow> blockNumber e | None \<Rightarrow> - 1))))))"

definition shouldRegisterAgain :: "TickEnv \<Rightarrow> int \<Rightarrow> EventData list \<Rightarrow> bool io" where
  "shouldRegisterAgain env currentBlock hubEventsSinceLastScan =
     await (await (call ''txStoreManager.isActionPending(RELAY_CALL)'' (isRelayCallPending_answer env)) (\<lambda>relayCallPending.
            (if relayCallPending then resolve True
             else call ''txStoreManager.isActionPending(REGISTER_SERVER)''
                    (isRegisterServerPending_answer env)))) (\<lambda>isPendingActivityTransaction.
     await (self) (\<lambda>srv.
     (if registrationBlockRate (config srv) = 0 \<or> isPendingActivityTransaction
      then resolve False
      else await (getLatestTxBlockNumber env hubEventsSinceLastScan) (\<lambda>latestTxBlockNumber.
           resolve (registrationBlockRate (config srv) \<le> currentBlock - latestTxBlockNumber)))))"

definition shouldRefreshState :: "RelayServer \<Rightarrow> int \<Rightarrow> bool" where
  "shouldRefreshState s currentBlock \<longleftrightarrow>
     refreshStateTimeoutBlocks (config s) \<le> currentBlock - lastRefreshBlock s \<or> \<not> isReady s"

definition TransactionRejectedByPaymaster :: string where
  "TransactionRejectedByPaymaster = ''TransactionRejectedByPaymaster''"

definition handleTransactionRejectedByPaymasterEvent :: "int \<Rightarrow> unit io" where
  "handleTransactionRejectedByPaymasterEvent blockNum =
     await (assign (\<lambda>s. s\<lparr>alerted := True\<rparr>)) (\<lambda>_.
     await (assign (\<lambda>s. s\<lparr>alertedBlock := blockNum\<rparr>)) (\<lambda>_.
     record_effect (LogError ''Relay entered alerted state.'')))"

fun handlePastHubEvents :: "int \<Rightarrow> EventData list \<Rightarrow> unit io" where
  "handlePastHubEvents blockNum [] = resolve ()"
| "handlePastHubEvents blockNum (ev # hubEventsSinceLastScan) =
     await ((if event ev = TransactionRejectedByPaymaster
             then handleTransactionRejectedByPaymasterEvent blockNum
             else resolve ())) (\<lambda>_.
     handlePastHubEvents blockNum hubEventsSinceLastScan)"

definition getAllHubEventsSinceLastScan :: "TickEnv \<Rightarrow> EventData list io" where
  "getAllHubEventsSinceLastScan env =
     call ''contractInteractor.getPastEventsForHub(fromBlock lastScannedBlock + 1)''
       (getPastEventsForHub_answer env)"

definition boostStuckPendingTransactions :: "TickEnv \<Rightarrow> int \<Rightarrow> PrefixedHexString list io" where
  "boostStuckPendingTransactions env blockNum =
     await (call ''transactionManager.boostOldestPendingTransactionForSigner(managerAddress)''
              (boostManager_answer env)) (\<lambda>signedByManager.
     await (call ''transactionManager.boostOldestPendingTransactionForSigner(workerAddress)''
              (boostWorker_answer env)) (\<lambda>signedByWorker.
     resolve ((case signedByManager of None \<Rightarrow> [] | Some tx \<Rightarrow> [tx])
              @ (case signedByWorker of None \<Rightarrow> [] | Some tx \<Rightarrow> [tx]))))"

text \<open>
  The call of \<open>registrationManager.handlePastEvents\<close> with the events, the last
  scanned block, the current block and the hint.
\<close>

definition handlePastEvents :: "TickEnv \<Rightarrow> EventData list \<Rightarrow> int \<Rightarrow> bool \<Rightarrow> PrefixedHexString list io" where
  "handlePastEvents env hubEventsSinceLastScan blockNum registerAgain =
     await (self) (\<lambda>srv.
     await (record_effect
              (HandlePastEvents hubEventsSinceLastScan (lastScannedBlock srv) blockNum registerAgain)) (\<lambda>_.
     (\<lambda>s. (s, handlePastEvents_answer env))))"

definition handleChanges :: "TickEnv \<Rightarrow> int \<Rightarrow> PrefixedHexString list io" where
  "handleChanges env blockNum =
     await (getAllHubEventsSinceLastScan env) (\<lambda>hubEventsSinceLastScan.
     await (shouldRegisterAgain env blockNum hubEventsSinceLastScan) (\<lambda>registerAgain.
     await (handlePastEvents env hubEventsSinceLastScan blockNum registerAgain) (\<lambda>registrationHashes.
     await (call ''transactionManager.removeConfirmedTransactions''
              (removeConfirmedTransactions_answer env)) (\<lambda>_.
     await (boostStuckPendingTransactions env blockNum) (\<lambda>_.
     await (assign (\<lambda>s. s\<lparr>lastScannedBlock := blockNum\<rparr>)) (\<lambda>_.
     await (call ''registrationManager.isRegistered'' (isRegistered_answer env)) (\<lambda>isRegistered.
     (if \<not> isRegistered
      then await (setReadyState False) (\<lambda>_.
           resolve registrationHashes)
      else await (handlePastHubEvents blockNum hubEventsSinceLastScan) (\<lambda>_.
           await (replenishServer (tickReplenishEnv env) 0 blockNum) (\<lambda>replenishHashes.
           await (call ''getWorkerBalance'' (getWorkerBalance_final env)) (\<lambda>workerBalance.
           await (self) (\<lambda>srv.
           (if workerBalance < workerMinBalance (config srv)
            then await (setReadyState False) (\<lambda>_.
                 resolve (registrationHashes @ replenishHashes))
            else await (setReadyState True) (\<lambda>_.
                 await (self) (\<lambda>srv.
                 (if alerted srv \<and> alertedBlock srv + alertedBlockDelay (config srv) < blockNum
                  then await (record_effect (LogWarn ''Relay exited alerted state.'')) (\<lambda>_.
                       await (assign (\<lambda>s. s\<lparr>alerted := False\<rparr>)) (\<lambda>_.
                       resolve (registrationHashes @ replenishHashes)))
                  else resolve (registrationHashes @ replenishHashes)))))))))))))))))"

definition worker :: "TickEnv \<Rightarrow> int \<Rightarrow> PrefixedHexString list io" where
  "worker env blockNum =
     await (self) (\<lambda>srv.
     await ((if \<not> initialized srv
             then init (initEnv env)
             else resolve ())) (\<lambda>_.
     await (self) (\<lambda>srv.
     (if blockNum \<le> lastScannedBlock srv
      then reject (Error ''Attempt to scan older block, aborting'')
      else (if \<not> shouldRefreshState srv blockNum
            then resolve []
            else await (assign (\<lambda>s. s\<lparr>lastRefreshBlock := blockNum\<rparr>)) (\<lambda>_.
                 await (refreshGasPrice env) (\<lambda>_.
                 await (call ''registrationManager.refreshBalance'' (refreshBalance_answer env)) (\<lambda>_.
                 (if \<not> balanceRequired_isSatisfied env
                  then await (setReadyState False) (\<lambda>_.
                       resolve [])
                  else handleChanges env blockNum)))))))))"

definition workerSemaphore :: "TickEnv \<Rightarrow> int \<Rightarrow> unit io" where
  "workerSemaphore env blockNum =
     await (self) (\<lambda>srv.
     (if workerSemaphoreOn srv
      then record_effect (LogWarn ''Different worker is not finished yet, skipping this block'')
      else await (assign (\<lambda>s. s\<lparr>workerSemaphoreOn := True\<rparr>)) (\<lambda>_.
           andFinally
             (await (worker env blockNum) (\<lambda>transactions.
              assign (\<lambda>s. s\<lparr>lastSuccessfulRounds := increment (lastSuccessfulRounds s)\<rparr>)))
             (assign (\<lambda>s. s\<lparr>workerSemaphoreOn := False\<rparr>)))))"

text \<open>
  The promise of \<open>intervalHandler\<close> before its \<open>catch\<close>: the latest block is
  observed and, when it is past the last scanned block, handed to the worker.
\<close>

definition observeLatestBlock :: "TickEnv \<Rightarrow> unit io" where
  "observeLatestBlock env =
     await (call ''contractInteractor.getBlock(latest)'' (getBlock_latest env)) (\<lambda>blockNum.
     await (self) (\<lambda>srv.
     (if blockNum > lastScannedBlock srv then workerSemaphore env blockNum else resolve ())))"

definition workerTimeout_callback :: "unit io" where
  "workerTimeout_callback =
     await (record_effect (LogWarn ''Relay state: Timed-out'')) (\<lambda>_.
     assign (\<lambda>s. s\<lparr>lastSuccessfulRounds := 0\<rparr>))"

definition catchWorkerError :: "unit io" where
  "catchWorkerError =
     await (record_effect (Emit ''error'')) (\<lambda>_.
     await (record_effect (LogError ''error in worker'')) (\<lambda>_.
     assign (\<lambda>s. s\<lparr>lastSuccessfulRounds := 0\<rparr>)))"

text \<open>
  One tick. The watchdog is armed unless \<open>devMode\<close> is set; when the time
  runs out, its callback runs while the tick waits for the latest block, the
  first place where the tick is suspended. The facade is taken to have a
  listener for its \<open>error\<close> event.
\<close>

definition intervalHandler :: "TickEnv \<Rightarrow> unit io" where
  "intervalHandler env =
     await (self) (\<lambda>srv.
     (let armed = \<not> devMode (config srv) in
      await ((if armed
              then record_effect (SetTimeout (readyTimeout (config srv)))
              else resolve ())) (\<lambda>_.
      await ((if armed \<and> readyTimeout_elapses env
              then workerTimeout_callback
              else resolve ())) (\<lambda>_.
      andFinally
        (orCatch (observeLatestBlock env) (\<lambda>msg. catchWorkerError))
        (record_effect ClearTimeout)))))"

section \<open>Construction and runs\<close>

text \<open>
  The state after the constructor, from the configuration and the two addresses
  of the key managers.
\<close>

definition newRelayServer :: "ServerConfigParams \<Rightarrow> PrefixedHexString \<Rightarrow> PrefixedHexString \<Rightarrow> RelayServer" where
  "newRelayServer cfg manager workerAddr =
     \<lparr>lastScannedBlock = 0, lastRefreshBlock = 0, ready = False,
      lastSuccessfulRounds = MAX_SAFE_INTEGER,
      managerAddress = manager, workerAddress = workerAddr,
      srvGasPrice = 0, workerSemaphoreOn = False, alerted = False, alertedBlock = 0,
      initialized = False, config = cfg, lastMinedActiveTransaction = None,
      chainId = None, networkId = None, relayHubContract = None,
      trustedPaymastersGasLimits = [],
      workerBalanceRequired = \<lparr>requiredValue = workerMinBalance cfg, currentValue = 0\<rparr>,
      trace = [LogWarn ''RelayServer version'']\<rparr>"

text \<open>
  A run of the server is a sequence of ticks and of relay requests, each with
  the answers of the collaborators during it. It ends when the process exits.
\<close>

datatype activity = Tick TickEnv | Relay AdmissionEnv RelayTransactionRequest

fun perform :: "activity \<Rightarrow> RelayServer \<Rightarrow> RelayServer \<times> (error + unit)" where
  "perform (Tick env) s = intervalHandler env s"
| "perform (Relay env req) s = await (createRelayTransaction env req) (\<lambda>_. resolve ()) s"

fun run :: "activity list \<Rightarrow> RelayServer \<Rightarrow> RelayServer" where
  "run [] s = s"
| "run (a # rest) s =
     (case perform a s of
        (s', Inl (ProcessExit code)) \<Rightarrow> s'
      | (s', _) \<Rightarrow> run rest s')"

section \<open>Notions used in the proofs\<close>

text \<open>
  A method preserves a property of the state when the property holds after each
  of its runs from a state where it held, whether the run threw or returned.
  A method establishes a postcondition from a precondition when each run that
  starts where the precondition holds and returns normally ends where the
  postcondition holds of the returned value.
\<close>

definition preserves :: "(RelayServer \<Rightarrow> bool) \<Rightarrow> 'a io \<Rightarrow> bool" where
  "preserves I m \<longleftrightarrow> (\<forall>s. I s \<longrightarrow> I (fst (m s)))"

definition returning :: "(RelayServer \<Rightarrow> bool) \<Rightarrow> 'a io \<Rightarrow> ('a \<Rightarrow> RelayServer \<Rightarrow> bool) \<Rightarrow> bool" where
  "returning P m Q \<longleftrightarrow> (\<forall>s s' x. P s \<longrightarrow> m s = (s', Inr x) \<longrightarrow> Q x s')"

text \<open>
  An effect is quiet when it submits nothing: it is neither a call of
  \<open>sendTransaction\<close> nor the hand-over of events to the registration manager.
\<close>

definition quiet :: "effect \<Rightarrow> bool" where
  "quiet e \<longleftrightarrow>
     (case e of SendTransaction d \<Rightarrow> False | HandlePastEvents evs a b h \<Rightarrow> False | _ \<Rightarrow> True)"

definition anyEffect :: "effect \<Rightarrow> bool" where
  "anyEffect e \<longleftrightarrow> True"

text \<open>
  A property of the state ignores a class of effects, or a field, when adding
  such an effect to the trace, or writing the field, never breaks it.
\<close>

definition ignoresEffects :: "(effect \<Rightarrow> bool) \<Rightarrow> (RelayServer \<Rightarrow> bool) \<Rightarrow> bool" where
  "ignoresEffects Q I \<longleftrightarrow> (\<forall>s e. Q e \<longrightarrow> I s \<longrightarrow> I (s\<lparr>trace := trace s @ [e]\<rparr>))"

definition ignores :: "(('v \<Rightarrow> 'v) \<Rightarrow> RelayServer \<Rightarrow> RelayServer) \<Rightarrow> (RelayServer \<Rightarrow> bool) \<Rightarrow> bool" where
  "ignores upd I \<longleftrightarrow> (\<forall>s v. I s \<longrightarrow> I (upd (\<lambda>_. v) s))"

text \<open>The transfers of value among the submitted transactions.\<close>

definition valueTransfers :: "effect list \<Rightarrow> SendTransactionDetails list" where
  "valueTransfers es = filter (\<lambda>d. serverAction d = VALUE_TRANSFER) (sentTransactions es)"

text \<open>
  A property of the state that no run of the worker can break: it ignores every
  effect and every field that the worker, the initialisation or the
  replenishment writes.
\<close>

definition workerFrame :: "(RelayServer \<Rightarrow> bool) \<Rightarrow> bool" where
  "workerFrame I \<longleftrightarrow>
     ignoresEffects anyEffect I
   \<and> ignores lastScannedBlock_update I \<and> ignores lastRefreshBlock_update I
   \<and> ignores ready_update I \<and> ignores srvGasPrice_update I
   \<and> ignores alerted_update I \<and> ignores alertedBlock_update I
   \<and> ignores initialized_update I \<and> ignores lastMinedActiveTransaction_update I
   \<and> ignores chainId_update I \<and> ignores networkId_update I
   \<and> ignores relayHubContract_update I \<and> ignores trustedPaymastersGasLimits_update I
   \<and> ignores workerBalanceRequired_update I"

text \<open>The number of ticks in a run.\<close>

fun ticks :: "activity list \<Rightarrow> nat" where
  "ticks [] = 0"
| "ticks (Tick env # rest) = Suc (ticks rest)"
| "ticks (Relay env req # rest) = ticks rest"

text \<open>
  The promise chain of \<open>intervalHandler\<close>: what the tick does between arming
  the watchdog and returning.
\<close>

definition promiseChain :: "TickEnv \<Rightarrow> unit io" where
  "promiseChain env =
     andFinally (orCatch (observeLatestBlock env) (\<lambda>msg. catchWorkerError))
       (record_effect ClearTimeout)"

text \<open>
  A state extends another quietly when it differs from it only by quiet effects
  added to the trace.
\<close>

definition extendsQuietly :: "RelayServer \<Rightarrow> RelayServer \<Rightarrow> bool" where
  "extendsQuietly s s' \<longleftrightarrow> (\<exists>es. s' = s\<lparr>trace := trace s @ es\<rparr> \<and> list_all quiet es)"

text \<open>
  The registration hint. An activity transaction is pending when the store
  answers so for \<open>RELAY_CALL\<close> or for \<open>REGISTER_SERVER\<close>. The latest relay
  event of the manager is the latest of the events since the last scan, else the
  one the server remembers, else the latest one the hub is asked for; its block
  is \<open>-1\<close> when there is none.
\<close>

definition pendingActivity :: "TickEnv \<Rightarrow> bool" where
  "pendingActivity env \<longleftrightarrow>
     isRelayCallPending_answer env = Inr True \<or> isRegisterServerPending_answer env = Inr True"

definition latestRelayEvent :: "TickEnv \<Rightarrow> EventData list \<Rightarrow> RelayServer \<Rightarrow> EventData option" where
  "latestRelayEvent env events s =
     (case getLatestEventData events of
        Some e \<Rightarrow> Some e
      | None \<Rightarrow>
         (case lastMinedActiveTransaction s of
            Some e \<Rightarrow> Some e
          | None \<Rightarrow> (case queryLatestActiveEvent_answer env of
                       Inr found \<Rightarrow> getLatestEventData found
                     | Inl e \<Rightarrow> None)))"

definition lastRelayEventBlock :: "TickEnv \<Rightarrow> EventData list \<Rightarrow> RelayServer \<Rightarrow> int" where
  "lastRelayEventBlock env events s =
     (case latestRelayEvent env events s of Some e \<Rightarrow> blockNumber e | None \<Rightarrow> - 1)"

text \<open>
  A state adds quietly to another when its trace is the other's followed by
  quiet effects only, whatever happened to the fields.
\<close>

definition addsQuietly :: "RelayServer \<Rightarrow> RelayServer \<Rightarrow> bool" where
  "addsQuietly s s' \<longleftrightarrow> (\<exists>es. trace s' = trace s @ es \<and> list_all quiet es)"

text \<open>
  The alerted state. A rejection is among the events when one of them is a
  \<open>TransactionRejectedByPaymaster\<close> event; the alert frame fixes the two
  fields of the alerted state and the configuration.
\<close>

definition rejectionAmong :: "EventData list \<Rightarrow> bool" where
  "rejectionAmong evs \<longleftrightarrow> list_ex (\<lambda>ev. event ev = TransactionRejectedByPaymaster) evs"

definition alertFrame :: "bool \<Rightarrow> int \<Rightarrow> ServerConfigParams \<Rightarrow> RelayServer \<Rightarrow> bool" where
  "alertFrame a ab c s \<longleftrightarrow> alerted s = a \<and> alertedBlock s = ab \<and> config s = c"

text \<open>
  Rounds. The promise chain of a tick starts in the state that the tick leaves
  after arming the watchdog: the state of the tick in \<open>devMode\<close>, else with the
  timer recorded and, when the time runs out, the counter zeroed by the
  callback. A tick starts a round when it hands a new block to a worker that is
  free. The round of a tick is completed when the worker was started and the
  promise resolved, failed when the promise was rejected and caught, and there
  is no round when the promise resolved without a worker.
\<close>

definition timesOut :: "TickEnv \<Rightarrow> RelayServer \<Rightarrow> bool" where
  "timesOut env s \<longleftrightarrow> \<not> devMode (config s) \<and> readyTimeout_elapses env"

definition chainStart :: "TickEnv \<Rightarrow> RelayServer \<Rightarrow> RelayServer" where
  "chainStart env s =
     (if devMode (config s) then s
      else if readyTimeout_elapses env
      then s\<lparr>trace := trace s @ [SetTimeout (readyTimeout (config s)),
                                  LogWarn ''Relay state: Timed-out''],
             lastSuccessfulRounds := 0\<rparr>
      else s\<lparr>trace := trace s @ [SetTimeout (readyTimeout (config s))]\<rparr>)"

definition roundStarts :: "TickEnv \<Rightarrow> RelayServer \<Rightarrow> bool" where
  "roundStarts env s \<longleftrightarrow>
     (case getBlock_latest env of
        Inr blockNum \<Rightarrow> lastScannedBlock s < blockNum \<and> \<not> workerSemaphoreOn s
      | Inl e \<Rightarrow> False)"

datatype round = Completed | Failed | Exited | NoRound

definition roundOf :: "TickEnv \<Rightarrow> RelayServer \<Rightarrow> round" where
  "roundOf env s =
     (case snd (observeLatestBlock env (chainStart env s)) of
        Inl (Error msg) \<Rightarrow> Failed
      | Inl (ProcessExit code) \<Rightarrow> Exited
      | Inr u \<Rightarrow> (if roundStarts env s then Completed else NoRound))"

text \<open>
  The number of consecutive successful rounds at the end of a run that starts
  with \<open>n\<close> of them: a completed round adds one, a failed round and an expiry
  of the watchdog start the count again from zero, and a tick without a round
  and a relay request leave it as it is. The run ends when the process exits.
\<close>

definition roundsAfterTick :: "nat \<Rightarrow> TickEnv \<Rightarrow> RelayServer \<Rightarrow> nat" where
  "roundsAfterTick n env s =
     (let n0 = (if timesOut env s then 0 else n) in
      case roundOf env s of
        Completed \<Rightarrow> Suc n0
      | Failed \<Rightarrow> 0
      | Exited \<Rightarrow> n0
      | NoRound \<Rightarrow> n0)"

fun consecutiveRounds :: "nat \<Rightarrow> activity list \<Rightarrow> RelayServer \<Rightarrow> nat" where
  "consecutiveRounds n [] s = n"
| "consecutiveRounds n (Tick env # rest) s =
     (case intervalHandler env s of
        (s', Inl (ProcessExit code)) \<Rightarrow> roundsAfterTick n env s
      | (s', _) \<Rightarrow> consecutiveRounds (roundsAfterTick n env s) rest s')"
| "consecutiveRounds n (Relay env req # rest) s =
     (case perform (Relay env req) s of
        (s', Inl (ProcessExit code)) \<Rightarrow> n
      | (s', _) \<Rightarrow> consecutiveRounds n rest s')"

section \<open>Concrete servers, requests and answers\<close>

text \<open>
  A small configuration (amounts in small units), a freshly constructed server,
  and the same server once initialised, ready and with a gas price of 10.
\<close>

definition exampleConfig :: ServerConfigParams where
  "exampleConfig =
     \<lparr>devMode = False, readyTimeout = 30000,
      workerMinBalance = 100, workerTargetBalance = 300,
      managerMinBalance = 100, managerTargetBalance = 1000,
      minHubWithdrawalBalance = 100,
      cfgPctRelayFee = 70, cfgBaseRelayFee = 0, maxAcceptanceBudget = 200000,
      gasPriceFactor = 1, trustedPaymasters = [],
      registrationBlockRate = 0, refreshStateTimeoutBlocks = 5,
      successfulRoundsForReady = 3, alertedBlockDelay = 20,
      minAlertedDelayMS = 0, maxAlertedDelayMS = 0\<rparr>"

definition exampleServer :: RelayServer where
  "exampleServer = newRelayServer exampleConfig ''0xmanager'' ''0xworker''"

definition runningServer :: RelayServer where
  "runningServer =
     exampleServer\<lparr>initialized := True, relayHubContract := Some ''0xhub'',
                   chainId := Some 1337, networkId := Some 1337,
                   ready := True, srvGasPrice := 10\<rparr>"

definition exampleRequest :: RelayTransactionRequest where
  "exampleRequest =
     \<lparr>relayRequest =
        \<lparr>request = \<lparr>gas = 50000\<rparr>,
         relayData = \<lparr>gasPrice = 20, pctRelayFee = 70, baseRelayFee = 0,
                      relayWorker = ''0xWORKER'', paymaster = ''0xpaymaster''\<rparr>\<rparr>,
      metadata = \<lparr>relayHubAddress = ''0xhub'', relayMaxNonce = 5,
                  signature = ''0xsig'', approvalData = ''0x''\<rparr>\<rparr>"

text \<open>
  A request that offers no fee, and a server that trusts the paymaster of the
  requests above.
\<close>

definition cheapRequest :: RelayTransactionRequest where
  "cheapRequest =
     exampleRequest\<lparr>relayRequest :=
        \<lparr>request = \<lparr>gas = 50000\<rparr>,
         relayData = \<lparr>gasPrice = 20, pctRelayFee = 0, baseRelayFee = 0,
                      relayWorker = ''0xWORKER'', paymaster = ''0xPaymaster''\<rparr>\<rparr>\<rparr>"

definition trustingServer :: RelayServer where
  "trustingServer =
     runningServer\<lparr>trustedPaymastersGasLimits :=
        [(''0xpaymaster'',
          \<lparr>acceptanceBudget = 300000, paymasterPreGas = 100000, paymasterPostGas = 110000\<rparr>)]\<rparr>"

text \<open>
  A pass of \<open>replenishServer\<close> on the running server: the manager holds 150
  (below its target of 1000 and 50 above its minimum), the hub holds 500 for it,
  no withdrawal is pending, the worker holds 50 (below its minimum of 100), and
  no transfer to the worker is pending.
\<close>

definition lowFundsEnv :: ReplenishEnv where
  "lowFundsEnv =
     \<lparr>getManagerBalance_first = Inr 150, balanceOf_manager = Inr 500,
      getWorkerBalance_answer = Inr 50, isWithdrawalPending_answer = Inr False,
      attemptEstimateGas_answer = Inr 60000,
      sendWithdraw_answer = Inr \<lparr>transactionHash = ''0xw1'', signedTx = ''0xsignedw1''\<rparr>,
      getManagerBalance_second = Inr 150, isReplenishPending_answer = Inr False,
      sendTransfer_answer = Inr \<lparr>transactionHash = ''0xt1'', signedTx = ''0xsignedt1''\<rparr>,
      mintxgascost = 21000\<rparr>"

text \<open>
  The same pass when the manager holds 900 at its second reading: enough to
  refill the worker.
\<close>

definition fundedEnv :: ReplenishEnv where
  "fundedEnv = lowFundsEnv\<lparr>getManagerBalance_second := Inr 900\<rparr>"

text \<open>
  Answers with which \<open>init\<close> goes through: a hub with code, chain and network
  1337.
\<close>

definition goodInitEnv :: InitEnv where
  "goodInitEnv =
     \<lparr>transactionManager_init = Inr (),
      createPaymaster_answer = (\<lambda>_. Inr ()),
      getGasLimits_answer =
        (\<lambda>_. Inr \<lparr>acceptanceBudget = 300000, paymasterPreGas = 100000, paymasterPostGas = 110000\<rparr>),
      relayHubInstance_answer = Inr ''0xhub'',
      getCode_answer = Inr ''0x6080604052'',
      registrationManager_init = Inr (),
      getChainId_answer = Inr 1337, getNetworkId_answer = Inr 1337,
      getBlock_init = Inr 100\<rparr>"

text \<open>
  A tick at block 100 in which everything is in order: the server is
  registered, nothing is pending, no event arrived, the manager holds 2000 and
  the worker 300.
\<close>

definition healthyReplenishEnv :: ReplenishEnv where
  "healthyReplenishEnv =
     lowFundsEnv\<lparr>getManagerBalance_first := Inr 2000, getManagerBalance_second := Inr 2000,
                 getWorkerBalance_answer := Inr 300\<rparr>"

definition registeredEvent :: EventData where
  "registeredEvent = \<lparr>event = ''RelayServerRegistered'', blockNumber = 50\<rparr>"

definition goodTickEnv :: TickEnv where
  "goodTickEnv =
     \<lparr>getBlock_latest = Inr 100, initEnv = goodInitEnv,
      getGasPrice_answer = Inr 10, refreshBalance_answer = Inr (),
      balanceRequired_isSatisfied = True,
      getPastEventsForHub_answer = Inr [],
      isRelayCallPending_answer = Inr False, isRegisterServerPending_answer = Inr False,
      queryLatestActiveEvent_answer = Inr [registeredEvent],
      handlePastEvents_answer = Inr [],
      removeConfirmedTransactions_answer = Inr (),
      boostManager_answer = Inr None, boostWorker_answer = Inr None,
      isRegistered_answer = Inr True,
      tickReplenishEnv = healthyReplenishEnv,
      getWorkerBalance_final = Inr 300,
      readyTimeout_elapses = False\<rparr>"

text \<open>
  A server whose counter of successful rounds was just zeroed, after it scanned
  block 100, and three ticks in order at the blocks 101, 102 and 103.
\<close>

definition zeroedServer :: RelayServer where
  "zeroedServer =
     runningServer\<lparr>lastSuccessfulRounds := 0, lastScannedBlock := 100, lastRefreshBlock := 100\<rparr>"

definition threeTicks :: "activity list" where
  "threeTicks =
     [Tick (goodTickEnv\<lparr>getBlock_latest := Inr 101\<rparr>),
      Tick (goodTickEnv\<lparr>getBlock_latest := Inr 102\<rparr>),
      Tick (goodTickEnv\<lparr>getBlock_latest := Inr 103\<rparr>)]"

text \<open>
  A freshly constructed server in \<open>devMode\<close>, and a tick during which the time
  of the watchdog runs out.
\<close>

definition devServer :: RelayServer where
  "devServer = newRelayServer (exampleConfig\<lparr>devMode := True\<rparr>) ''0xmanager'' ''0xworker''"

definition slowTickEnv :: TickEnv where
  "slowTickEnv = goodTickEnv\<lparr>readyTimeout_elapses := True\<rparr>"

text \<open>
  The answers during the admission of a request that every validation accepts,
  and the same answers with a view call that the paymaster rejects.
\<close>

definition goodAdmissionEnv :: AdmissionEnv where
  "goodAdmissionEnv =
     \<lparr>ow_exactShape = True, pollNonce_answer = Inr 0,
      paymaster_getGasLimits =
        Inr \<lparr>acceptanceBudget = 100000, paymasterPreGas = 50000, paymasterPostGas = 50000\<rparr>,
      gasOverhead_answer = Inr 30000, calculateCharge_answer = Inr 1000,
      balanceOf_paymaster = Inr 1000000, viewRelayCall_answer = Inr (True, ''''),
      getBlockNumber_answer = Inr 100,
      sendRelay_answer = Inr \<lparr>transactionHash = ''0xhash'', signedTx = ''0xsigned''\<rparr>,
      admissionReplenishEnv = healthyReplenishEnv, randomInRange_answer = 0\<rparr>"

definition rejectingAdmissionEnv :: AdmissionEnv where
  "rejectingAdmissionEnv = goodAdmissionEnv\<lparr>viewRelayCall_answer := Inr (False, ''rejected'')\<rparr>"

text \<open>
  The running server with a registration block rate of 10, and a tick during
  which a relay call is pending.
\<close>

definition rateServer :: RelayServer where
  "rateServer = runningServer\<lparr>config := exampleConfig\<lparr>registrationBlockRate := 10\<rparr>\<rparr>"

definition pendingRelayCallEnv :: TickEnv where
  "pendingRelayCallEnv = goodTickEnv\<lparr>isRelayCallPending_answer := Inr True\<rparr>"

text \<open>
  A tick at block 100 whose replenishment finds the balances of
  \<open>fundedEnv\<close>, and the same tick when the gas price cannot be fetched.
\<close>

definition fundingTickEnv :: TickEnv where
  "fundingTickEnv = goodTickEnv\<lparr>tickReplenishEnv := fundedEnv\<rparr>"

definition failedTickEnv :: TickEnv where
  "failedTickEnv = fundingTickEnv\<lparr>getGasPrice_answer := Inl (Error ''timeout'')\<rparr>"

text \<open>
  A tick at block 600 that scans a rejection by a paymaster, and the server
  after it; ticks at the blocks 620 and 621, and a tick at block 621 that finds
  the worker with a balance of 50, below its minimum of 100.
\<close>

definition rejectedEvent :: EventData where
  "rejectedEvent = \<lparr>event = TransactionRejectedByPaymaster, blockNumber = 599\<rparr>"

definition rejectionTickEnv :: TickEnv where
  "rejectionTickEnv =
     goodTickEnv\<lparr>getBlock_latest := Inr 600, getPastEventsForHub_answer := Inr [rejectedEvent]\<rparr>"

definition alertedServer :: RelayServer where
  "alertedServer = fst (intervalHandler rejectionTickEnv runningServer)"

definition tick620 :: TickEnv where
  "tick620 = goodTickEnv\<lparr>getBlock_latest := Inr 620\<rparr>"

definition tick621 :: TickEnv where
  "tick621 = goodTickEnv\<lparr>getBlock_latest := Inr 621\<rparr>"

definition poorWorkerTick621 :: TickEnv where
  "poorWorkerTick621 = tick621\<lparr>getWorkerBalance_final := Inr 50\<rparr>"

text \<open>
  Three ticks at the blocks 101, 102 and 103 of which the second cannot fetch
  the gas price.
\<close>

definition flakyTicks :: "activity list" where
  "flakyTicks =
     [Tick (goodTickEnv\<lparr>getBlock_latest := Inr 101\<rparr>),
      Tick (goodTickEnv\<lparr>getBlock_latest := Inr 102, getGasPrice_answer := Inl (Error ''timeout'')\<rparr>),
      Tick (goodTickEnv\<lparr>getBlock_latest := Inr 103\<rparr>)]"

section \<open>Rules for preservation\<close>

lemma preserves_resolve: "preserves I (resolve x)"
  by (simp add: preserves_def resolve_def)

lemma preserves_reject: "preserves I (reject e)"
  by (simp add: preserves_def reject_def)

lemma preserves_self: "preserves I self"
  by (simp add: preserves_def self_def)

lemma preserves_await:
  assumes "preserves I m" and "\<And>x. preserves I (f x)"
  shows "preserves I (await m f)"
  using assms by (auto simp: preserves_def await_def split: prod.splits sum.splits)

lemma preserves_orCatch:
  assumes "preserves I m" and "\<And>msg. preserves I (h msg)"
  shows "preserves I (orCatch m h)"
  using assms
  by (auto simp: preserves_def orCatch_def split: prod.splits sum.splits error.splits)

lemma preserves_andFinally:
  assumes "preserves I m" and "preserves I k"
  shows "preserves I (andFinally m k)"
  using assms
  by (auto simp: preserves_def andFinally_def split: prod.splits sum.splits error.splits)

lemma preserves_if:
  assumes "c \<Longrightarrow> preserves I a" and "\<not> c \<Longrightarrow> preserves I b"
  shows "preserves I (if c then a else b)"
  using assms by simp

lemma preserves_Let:
  assumes "preserves I (f v)"
  shows "preserves I (Let v f)"
  using assms by simp

lemma preserves_case_option:
  assumes "x = None \<Longrightarrow> preserves I a" and "\<And>y. x = Some y \<Longrightarrow> preserves I (b y)"
  shows "preserves I (case x of None \<Rightarrow> a | Some y \<Rightarrow> b y)"
  using assms by (cases x) simp_all

lemma preserves_record_effect: "ignoresEffects Q I \<Longrightarrow> Q e \<Longrightarrow> preserves I (record_effect e)"
  by (simp add: preserves_def record_effect_def ignoresEffects_def)

lemma preserves_call: "ignoresEffects Q I \<Longrightarrow> Q (Call n) \<Longrightarrow> preserves I (call n a)"
  by (simp add: preserves_def call_def ignoresEffects_def)

lemma preserves_sendTransaction:
  "ignoresEffects Q I \<Longrightarrow> Q (SendTransaction d) \<Longrightarrow> preserves I (sendTransaction d a)"
  by (simp add: preserves_def sendTransaction_def ignoresEffects_def)

lemma preserves_assign: "(\<And>s. I s \<Longrightarrow> I (f s)) \<Longrightarrow> preserves I (assign f)"
  by (simp add: preserves_def assign_def)

lemmas preserves_structure =
  preserves_resolve preserves_reject preserves_self preserves_await preserves_orCatch
  preserves_andFinally preserves_if preserves_Let preserves_case_option

lemma quiet_simps [simp]:
  "quiet (Call n)" "quiet (Emit x)" "quiet (LogWarn x)" "quiet (LogError x)"
  "quiet (SetTimeout t)" "quiet ClearTimeout" "quiet (Sleep t)"
  "\<not> quiet (SendTransaction d)" "\<not> quiet (HandlePastEvents evs a b h)"
  by (simp_all add: quiet_def)

lemma anyEffect [simp]: "anyEffect e"
  by (simp add: anyEffect_def)

lemma ignoresEffects_quiet: "ignoresEffects anyEffect I \<Longrightarrow> ignoresEffects quiet I"
  by (simp add: ignoresEffects_def)

lemma preserves_hubInstance: "preserves I hubInstance"
  unfolding hubInstance_def by (intro preserves_structure)

lemma preserves_replenishServer:
  assumes tr: "ignoresEffects anyEffect I" and wbr: "ignores workerBalanceRequired_update I"
  shows "preserves I (replenishServer env i b)"
  unfolding replenishServer_def setWorkerBalance_def
  by (intro preserves_structure preserves_hubInstance preserves_call [OF tr]
        preserves_record_effect [OF tr] preserves_sendTransaction [OF tr] preserves_assign)
     (use wbr in \<open>simp_all add: ignores_def\<close>)

section \<open>Running a method step by step\<close>

lemma await_resolve: "await (resolve x) f s = f x s"
  by (simp add: await_def resolve_def)

lemma await_reject: "await (reject e) f s = (s, Inl e)"
  by (simp add: await_def reject_def)

lemma await_self: "await self f s = f s s"
  by (simp add: await_def self_def)

lemma await_assign: "await (assign g) f s = f () (g s)"
  by (simp add: await_def assign_def)

lemma await_record_effect: "await (record_effect e) f s = f () (s\<lparr>trace := trace s @ [e]\<rparr>)"
  by (simp add: await_def record_effect_def)

lemma await_call_Inr: "await (call n (Inr x)) f s = f x (s\<lparr>trace := trace s @ [Call n]\<rparr>)"
  by (simp add: await_def call_def)

lemma await_call_Inl: "await (call n (Inl e)) f s = (s\<lparr>trace := trace s @ [Call n]\<rparr>, Inl e)"
  by (simp add: await_def call_def)

lemma await_sendTransaction_Inr:
  "await (sendTransaction d (Inr x)) f s = f x (s\<lparr>trace := trace s @ [SendTransaction d]\<rparr>)"
  by (simp add: await_def sendTransaction_def)

lemma await_sendTransaction_Inl:
  "await (sendTransaction d (Inl e)) f s = (s\<lparr>trace := trace s @ [SendTransaction d]\<rparr>, Inl e)"
  by (simp add: await_def sendTransaction_def)

lemma await_await: "await (await m f) g = await m (\<lambda>x. await (f x) g)"
  by (rule ext) (simp add: await_def split: prod.splits sum.splits)

lemma await_if: "await (if c then a else b) f = (if c then await a f else await b f)"
  by simp

lemma fst_await_sendTransaction_resolve:
  "fst (await (sendTransaction d a) (\<lambda>x. resolve (g x)) s) = s\<lparr>trace := trace s @ [SendTransaction d]\<rparr>"
  by (simp add: await_def sendTransaction_def resolve_def split: sum.splits)

lemma resolve_apply: "resolve x s = (s, Inr x)"
  by (simp add: resolve_def)

lemma reject_apply: "reject e s = (s, Inl e)"
  by (simp add: reject_def)

lemma await_hubInstance: "relayHubContract s = Some h \<Longrightarrow> await hubInstance f s = f h s"
  by (simp add: hubInstance_def await_await await_self await_resolve)

lemmas run_simps = await_resolve await_reject await_self await_assign await_record_effect
  await_call_Inr await_call_Inl await_sendTransaction_Inr await_sendTransaction_Inl
  await_await await_if resolve_apply reject_apply

lemmas example_defs = exampleConfig_def exampleServer_def runningServer_def newRelayServer_def
  exampleRequest_def cheapRequest_def trustingServer_def lowFundsEnv_def fundedEnv_def
  goodInitEnv_def healthyReplenishEnv_def goodTickEnv_def registeredEvent_def
  zeroedServer_def threeTicks_def devServer_def slowTickEnv_def

section \<open>Rules for what a method establishes when it returns\<close>

lemma returning_await:
  assumes "returning P m R" and "\<And>x. returning (R x) (f x) Q"
  shows "returning P (await m f) Q"
  using assms unfolding returning_def await_def
  by (auto split: prod.splits sum.splits)

lemma returning_await_any:
  assumes "\<And>x. returning (\<lambda>_. True) (f x) Q"
  shows "returning P (await m f) Q"
  using assms unfolding returning_def await_def
  by (auto split: prod.splits sum.splits)

lemma returning_reject: "returning P (reject e) Q"
  by (simp add: returning_def reject_def)

lemma returning_if:
  assumes "c \<Longrightarrow> returning P a Q" and "\<not> c \<Longrightarrow> returning P b Q"
  shows "returning P (if c then a else b) Q"
  using assms by simp

section \<open>What the methods of the server preserve\<close>

lemma preserves_setReadyState:
  assumes tr: "ignoresEffects quiet I" and rd: "ignores ready_update I"
  shows "preserves I (setReadyState b)"
  unfolding setReadyState_def
  by (intro preserves_structure preserves_record_effect [OF tr] preserves_assign)
     (use rd in \<open>simp_all add: ignores_def\<close>)

lemma preserves_validateInput: "preserves I (validateInput req)"
  unfolding validateInput_def by (intro preserves_structure preserves_hubInstance)

lemma preserves_validateFees: "preserves I (validateFees req)"
  unfolding validateFees_def by (intro preserves_structure)

lemma preserves_validateInputTypes: "preserves I (validateInputTypes env req)"
  unfolding validateInputTypes_def by (intro preserves_structure)

lemma preserves_validateMaxNonce:
  assumes tr: "ignoresEffects quiet I"
  shows "preserves I (validateMaxNonce env n)"
  unfolding validateMaxNonce_def
  by (intro preserves_structure preserves_call [OF tr]) simp_all

lemma preserves_validatePaymasterGasLimits:
  assumes tr: "ignoresEffects quiet I"
  shows "preserves I (validatePaymasterGasLimits env req)"
  unfolding validatePaymasterGasLimits_def
  by (intro preserves_structure preserves_hubInstance preserves_call [OF tr]) simp_all

lemma preserves_validateViewCallSucceeds:
  assumes tr: "ignoresEffects quiet I"
  shows "preserves I (validateViewCallSucceeds env req a b)"
  unfolding validateViewCallSucceeds_def
  by (intro preserves_structure preserves_hubInstance preserves_call [OF tr]) simp_all

lemma preserves_createRelayTransaction:
  assumes tr: "ignoresEffects anyEffect I" and wbr: "ignores workerBalanceRequired_update I"
  shows "preserves I (createRelayTransaction env req)"
  unfolding createRelayTransaction_def
  by (intro preserves_structure preserves_hubInstance preserves_validateInputTypes
        preserves_validateInput preserves_validateFees
        preserves_validateMaxNonce [OF ignoresEffects_quiet [OF tr]]
        preserves_validatePaymasterGasLimits [OF ignoresEffects_quiet [OF tr]]
        preserves_validateViewCallSucceeds [OF ignoresEffects_quiet [OF tr]]
        preserves_replenishServer [OF tr wbr]
        preserves_call [OF tr] preserves_record_effect [OF tr] preserves_sendTransaction [OF tr])
     simp_all

lemma preserves_initTrustedPaymasters_loop:
  assumes tr: "ignoresEffects quiet I" and tp: "ignores trustedPaymastersGasLimits_update I"
  shows "preserves I (initTrustedPaymasters_loop env ps)"
proof (induction ps)
  case Nil
  show ?case by (simp add: preserves_resolve)
next
  case (Cons p ps)
  show ?case
    unfolding initTrustedPaymasters_loop.simps
    by (intro preserves_structure preserves_call [OF tr] preserves_assign Cons.IH)
       (use tp in \<open>simp_all add: ignores_def\<close>)
qed

lemma preserves_init:
  assumes tr: "ignoresEffects quiet I"
    and tp: "ignores trustedPaymastersGasLimits_update I"
    and hub: "ignores relayHubContract_update I"
    and cid: "ignores chainId_update I"
    and nid: "ignores networkId_update I"
    and ini: "ignores initialized_update I"
  shows "preserves I (init env)"
  unfolding init_def initTrustedPaymasters_def fatal_def
  by (intro preserves_structure preserves_call [OF tr] preserves_record_effect [OF tr]
        preserves_assign preserves_initTrustedPaymasters_loop [OF tr tp])
     (use tp hub cid nid ini in \<open>simp_all add: ignores_def\<close>)

lemma preserves_refreshGasPrice:
  assumes tr: "ignoresEffects quiet I" and gp: "ignores srvGasPrice_update I"
  shows "preserves I (refreshGasPrice env)"
  unfolding refreshGasPrice_def
  by (intro preserves_structure preserves_call [OF tr] preserves_assign)
     (use gp in \<open>simp_all add: ignores_def\<close>)

lemma preserves_shouldRegisterAgain:
  assumes tr: "ignoresEffects quiet I" and lm: "ignores lastMinedActiveTransaction_update I"
  shows "preserves I (shouldRegisterAgain env b evs)"
  unfolding shouldRegisterAgain_def getLatestTxBlockNumber_def queryLatestActiveEvent_def
  by (intro preserves_structure preserves_call [OF tr] preserves_assign)
     (use lm in \<open>simp_all add: ignores_def\<close>)

lemma preserves_handlePastHubEvents:
  assumes tr: "ignoresEffects quiet I"
    and al: "ignores alerted_update I" and ab: "ignores alertedBlock_update I"
  shows "preserves I (handlePastHubEvents b evs)"
proof (induction evs)
  case Nil
  show ?case by (simp add: preserves_resolve)
next
  case (Cons ev evs)
  show ?case
    unfolding handlePastHubEvents.simps handleTransactionRejectedByPaymasterEvent_def
    by (intro preserves_structure preserves_record_effect [OF tr] preserves_assign Cons.IH)
       (use al ab in \<open>simp_all add: ignores_def\<close>)
qed

lemma preserves_boost:
  assumes tr: "ignoresEffects quiet I"
  shows "preserves I (boostStuckPendingTransactions env b)"
  unfolding boostStuckPendingTransactions_def
  by (intro preserves_structure preserves_call [OF tr]) simp_all

lemma preserves_handlePastEvents:
  assumes tr: "ignoresEffects anyEffect I"
  shows "preserves I (handlePastEvents env evs b h)"
  unfolding handlePastEvents_def
  by (intro preserves_structure preserves_record_effect [OF tr]) (simp_all add: preserves_def)

lemma preserves_handleChanges:
  assumes tr: "ignoresEffects anyEffect I"
    and lm: "ignores lastMinedActiveTransaction_update I"
    and ls: "ignores lastScannedBlock_update I"
    and rd: "ignores ready_update I"
    and al: "ignores alerted_update I" and ab: "ignores alertedBlock_update I"
    and wbr: "ignores workerBalanceRequired_update I"
  shows "preserves I (handleChanges env b)"
  unfolding handleChanges_def getAllHubEventsSinceLastScan_def
  by (intro preserves_structure preserves_call [OF tr] preserves_record_effect [OF tr]
        preserves_assign
        preserves_shouldRegisterAgain [OF ignoresEffects_quiet [OF tr] lm]
        preserves_handlePastEvents [OF tr]
        preserves_boost [OF ignoresEffects_quiet [OF tr]]
        preserves_setReadyState [OF ignoresEffects_quiet [OF tr] rd]
        preserves_handlePastHubEvents [OF ignoresEffects_quiet [OF tr] al ab]
        preserves_replenishServer [OF tr wbr])
     (use ls al in \<open>simp_all add: ignores_def\<close>)

lemma preserves_worker:
  assumes fr: "workerFrame I"
  shows "preserves I (worker env b)"
proof -
  from fr have tr: "ignoresEffects anyEffect I"
    and ls: "ignores lastScannedBlock_update I" and lr: "ignores lastRefreshBlock_update I"
    and rd: "ignores ready_update I" and gp: "ignores srvGasPrice_update I"
    and al: "ignores alerted_update I" and ab: "ignores alertedBlock_update I"
    and ini: "ignores initialized_update I" and lm: "ignores lastMinedActiveTransaction_update I"
    and cid: "ignores chainId_update I" and nid: "ignores networkId_update I"
    and hub: "ignores relayHubContract_update I"
    and tp: "ignores trustedPaymastersGasLimits_update I"
    and wbr: "ignores workerBalanceRequired_update I"
    by (simp_all add: workerFrame_def)
  note q = ignoresEffects_quiet [OF tr]
  show ?thesis
    unfolding worker_def
    by (intro preserves_structure preserves_call [OF tr] preserves_assign
          preserves_init [OF q tp hub cid nid ini]
          preserves_refreshGasPrice [OF q gp]
          preserves_setReadyState [OF q rd]
          preserves_handleChanges [OF tr lm ls rd al ab wbr])
       (use lr in \<open>simp_all add: ignores_def\<close>)
qed

lemma workerFrame_counter:
  "workerFrame (\<lambda>s. lastSuccessfulRounds s = v \<and> config s = c \<and> workerSemaphoreOn s = w)"
  by (simp add: workerFrame_def ignoresEffects_def ignores_def)

lemma worker_counter:
  "lastSuccessfulRounds (fst (worker env b s)) = lastSuccessfulRounds s
   \<and> config (fst (worker env b s)) = config s"
  using preserves_worker [OF workerFrame_counter, of "lastSuccessfulRounds s" "config s" "workerSemaphoreOn s" env b]
  by (simp add: preserves_def)

lemma increment_bounds: "n \<le> increment n \<and> increment n \<le> n + 1"
  by (simp add: increment_def)

lemma workerSemaphore_counter:
  "lastSuccessfulRounds (fst (workerSemaphore env b s)) \<le> lastSuccessfulRounds s + 1
   \<and> config (fst (workerSemaphore env b s)) = config s"
proof (cases "workerSemaphoreOn s")
  case True
  then show ?thesis
    by (simp add: workerSemaphore_def await_self record_effect_def)
next
  case False
  obtain s2 r where w: "worker env b (s\<lparr>workerSemaphoreOn := True\<rparr>) = (s2, r)"
    by (cases "worker env b (s\<lparr>workerSemaphoreOn := True\<rparr>)")
  from worker_counter [of env b "s\<lparr>workerSemaphoreOn := True\<rparr>"] w
  have k: "lastSuccessfulRounds s2 = lastSuccessfulRounds s" "config s2 = config s"
    by simp_all
  from False w k show ?thesis
    using increment_bounds [of "lastSuccessfulRounds s"]
    by (cases r)
       (auto simp add: workerSemaphore_def andFinally_def await_def self_def
          assign_def split: error.splits)
qed

lemma observeLatestBlock_counter:
  "lastSuccessfulRounds (fst (observeLatestBlock env s)) \<le> lastSuccessfulRounds s + 1
   \<and> config (fst (observeLatestBlock env s)) = config s"
  using workerSemaphore_counter [of env _ "s\<lparr>trace := trace s @ [Call ''contractInteractor.getBlock(latest)'']\<rparr>"]
  by (cases "getBlock_latest env")
     (simp_all add: observeLatestBlock_def run_simps)

lemma tickChain_counter:
  "lastSuccessfulRounds
     (fst (andFinally (orCatch (observeLatestBlock env) (\<lambda>msg. catchWorkerError))
             (record_effect ClearTimeout) s)) \<le> max 0 (lastSuccessfulRounds s) + 1
   \<and> config (fst (andFinally (orCatch (observeLatestBlock env) (\<lambda>msg. catchWorkerError))
             (record_effect ClearTimeout) s)) = config s"
proof -
  obtain s1 r where o: "observeLatestBlock env s = (s1, r)"
    by (cases "observeLatestBlock env s")
  from observeLatestBlock_counter [of env s] o
  have k: "lastSuccessfulRounds s1 \<le> lastSuccessfulRounds s + 1" "config s1 = config s"
    by simp_all
  from o k show ?thesis
    by (auto simp add: andFinally_def orCatch_def catchWorkerError_def run_simps record_effect_def
          assign_def split: sum.splits error.splits prod.splits)
qed

lemma intervalHandler_counter:
  "lastSuccessfulRounds (fst (intervalHandler env s)) \<le> max 0 (lastSuccessfulRounds s) + 1
   \<and> config (fst (intervalHandler env s)) = config s"
proof -
  let ?chain = "andFinally (orCatch (observeLatestBlock env) (\<lambda>msg. catchWorkerError))
                  (record_effect ClearTimeout)"
  consider (dev) "devMode (config s)"
    | (expired) "\<not> devMode (config s)" "readyTimeout_elapses env"
    | (armed) "\<not> devMode (config s)" "\<not> readyTimeout_elapses env"
    by blast
  then show ?thesis
  proof cases
    case dev
    then have "intervalHandler env s = ?chain s"
      by (simp add: intervalHandler_def run_simps Let_def)
    with tickChain_counter [of env s] show ?thesis by simp
  next
    case expired
    let ?s1 = "s\<lparr>trace := trace s @ [SetTimeout (readyTimeout (config s)),
                                       LogWarn ''Relay state: Timed-out''],
                  lastSuccessfulRounds := 0\<rparr>"
    from expired have "intervalHandler env s = ?chain ?s1"
      by (simp add: intervalHandler_def workerTimeout_callback_def run_simps Let_def)
    with tickChain_counter [of env ?s1] show ?thesis by (auto simp add: max_def)
  next
    case armed
    let ?s1 = "s\<lparr>trace := trace s @ [SetTimeout (readyTimeout (config s))]\<rparr>"
    from armed have "intervalHandler env s = ?chain ?s1"
      by (simp add: intervalHandler_def run_simps Let_def)
    with tickChain_counter [of env ?s1] show ?thesis by (auto simp add: max_def)
  qed
qed

section \<open>Running a whole tick on concrete answers\<close>

lemmas tick_defs = intervalHandler_def observeLatestBlock_def workerSemaphore_def worker_def
  init_def initTrustedPaymasters_def refreshGasPrice_def handleChanges_def
  getAllHubEventsSinceLastScan_def shouldRegisterAgain_def getLatestTxBlockNumber_def
  queryLatestActiveEvent_def handlePastEvents_def boostStuckPendingTransactions_def
  setReadyState_def replenishServer_def setWorkerBalance_def hubInstance_def
  shouldRefreshState_def isReady_def isSatisfied_def catchWorkerError_def workerTimeout_callback_def
  handleTransactionRejectedByPaymasterEvent_def TransactionRejectedByPaymaster_def

lemmas io_defs = andFinally_def orCatch_def await_def self_def assign_def call_def
  record_effect_def sendTransaction_def resolve_def reject_def Let_def

section \<open>The counter of successful rounds along a run\<close>

lemma createRelayTransaction_counter:
  "lastSuccessfulRounds (fst (createRelayTransaction env req s)) = lastSuccessfulRounds s
   \<and> config (fst (createRelayTransaction env req s)) = config s"
proof -
  have "preserves (\<lambda>x. lastSuccessfulRounds x = lastSuccessfulRounds s \<and> config x = config s)
          (createRelayTransaction env req)"
    by (rule preserves_createRelayTransaction) (simp_all add: ignoresEffects_def ignores_def)
  then show ?thesis by (simp add: preserves_def)
qed

lemma perform_counter:
  "lastSuccessfulRounds (fst (perform a s))
     \<le> max 0 (lastSuccessfulRounds s) + int (ticks [a])
   \<and> config (fst (perform a s)) = config s"
proof (cases a)
  case (Tick env)
  with intervalHandler_counter [of env s] show ?thesis by simp
next
  case (Relay env req)
  obtain s1 r where c: "createRelayTransaction env req s = (s1, r)"
    by (cases "createRelayTransaction env req s")
  with createRelayTransaction_counter [of env req s]
  have "lastSuccessfulRounds s1 = lastSuccessfulRounds s" "config s1 = config s" by simp_all
  with Relay c show ?thesis
    by (cases r) (simp_all add: await_def resolve_def)
qed

lemma ticks_Cons: "ticks (a # rest) = ticks [a] + ticks rest"
  by (cases a) simp_all

lemma run_counter:
  "lastSuccessfulRounds (run acts s) \<le> max 0 (lastSuccessfulRounds s) + int (ticks acts)
   \<and> config (run acts s) = config s"
proof (induction acts arbitrary: s)
  case Nil
  show ?case by simp
next
  case (Cons a rest)
  obtain s1 r where p: "perform a s = (s1, r)"
    by (cases "perform a s")
  from perform_counter [of a s] p
  have k: "lastSuccessfulRounds s1 \<le> max 0 (lastSuccessfulRounds s) + int (ticks [a])"
    "config s1 = config s" by simp_all
  show ?case
  proof (cases "\<exists>code. r = Inl (ProcessExit code)")
    case True
    with p k show ?thesis by (auto simp add: ticks_Cons [of a rest])
  next
    case False
    then have "run (a # rest) s = run rest s1"
      using p by (cases r) (auto split: error.splits)
    with Cons.IH [of s1] k show ?thesis
      by (simp add: ticks_Cons [of a rest] max_def split: if_splits)
  qed
qed


lemma intervalHandler_as_chain:
  "intervalHandler env s =
     (if devMode (config s) then promiseChain env s
      else if readyTimeout_elapses env
      then promiseChain env
             (s\<lparr>trace := trace s @ [SetTimeout (readyTimeout (config s)),
                                     LogWarn ''Relay state: Timed-out''],
                lastSuccessfulRounds := 0\<rparr>)
      else promiseChain env (s\<lparr>trace := trace s @ [SetTimeout (readyTimeout (config s))]\<rparr>))"
  by (simp add: intervalHandler_def promiseChain_def workerTimeout_callback_def run_simps Let_def)


subsection \<open>Admission\<close>

lemma fails_validateMaxNonce:
  "fails (validateMaxNonce env n) s \<longleftrightarrow>
     (case pollNonce_answer env of Inl e \<Rightarrow> True | Inr nonce \<Rightarrow> nonce > n)"
  by (cases "pollNonce_answer env") (simp_all add: fails_def validateMaxNonce_def run_simps)

lemma fails_validateInputTypes: "fails (validateInputTypes env req) s \<longleftrightarrow> \<not> ow_exactShape env"
  by (simp add: fails_def validateInputTypes_def resolve_def reject_def)

lemma validateInput_trace:
  "snd (validateInput req (s\<lparr>trace := t\<rparr>)) = snd (validateInput req s)"
  by (simp add: validateInput_def hubInstance_def run_simps split: option.splits)

lemma validateFees_trace:
  "snd (validateFees req (s\<lparr>trace := t\<rparr>)) = snd (validateFees req s)"
  by (simp add: validateFees_def run_simps isTrustedPaymaster_def)

lemma validateViewCallSucceeds_trace:
  "snd (validateViewCallSucceeds env req b g (s\<lparr>trace := t\<rparr>)) = snd (validateViewCallSucceeds env req b' g' s)"
  by (cases "viewRelayCall_answer env"; cases "relayHubContract s")
     (auto simp add: validateViewCallSucceeds_def hubInstance_def run_simps orCatch_def call_def
        reject_def resolve_def await_def self_def split: error.splits)

lemma validatePaymasterGasLimits_trace:
  "snd (validatePaymasterGasLimits env req (s\<lparr>trace := t\<rparr>)) = snd (validatePaymasterGasLimits env req s)"
  by (cases "paymaster_getGasLimits env"; cases "relayHubContract s";
      cases "gasOverhead_answer env"; cases "calculateCharge_answer env";
      cases "balanceOf_paymaster env";
      cases "map_of (trustedPaymastersGasLimits s) (paymaster (relayData (relayRequest req)))")
     (auto simp add: validatePaymasterGasLimits_def hubInstance_def run_simps orCatch_def call_def
        reject_def resolve_def await_def self_def isTrustedPaymaster_def Let_def split: error.splits)

lemma extendsQuietly_refl: "extendsQuietly s s"
  by (simp add: extendsQuietly_def exI [of _ "[]"])

lemma ignoresEffects_extendsQuietly: "ignoresEffects quiet (extendsQuietly s)"
  unfolding ignoresEffects_def extendsQuietly_def
proof (intro allI impI)
  fix x e
  assume q: "quiet e" and "\<exists>es. x = s\<lparr>trace := trace s @ es\<rparr> \<and> list_all quiet es"
  then obtain es where "x = s\<lparr>trace := trace s @ es\<rparr>" "list_all quiet es" by blast
  with q have "x\<lparr>trace := trace x @ [e]\<rparr> = s\<lparr>trace := trace s @ (es @ [e])\<rparr> \<and> list_all quiet (es @ [e])"
    by simp
  then show "\<exists>es. x\<lparr>trace := trace x @ [e]\<rparr> = s\<lparr>trace := trace s @ es\<rparr> \<and> list_all quiet es"
    by blast
qed

lemma extendsQuietly_fails:
  assumes "extendsQuietly s s'"
  shows "fails (validateInputTypes env req) s' = fails (validateInputTypes env req) s"
    and "fails (validateInput req) s' = fails (validateInput req) s"
    and "fails (validateFees req) s' = fails (validateFees req) s"
    and "fails (validateMaxNonce env n) s' = fails (validateMaxNonce env n) s"
    and "fails (validatePaymasterGasLimits env req) s' = fails (validatePaymasterGasLimits env req) s"
    and "fails (validateViewCallSucceeds env req b g) s' = fails (validateViewCallSucceeds env req b' g') s"
  using assms
  by (auto simp add: extendsQuietly_def fails_def fails_validateInputTypes [unfolded fails_def]
        fails_validateMaxNonce [unfolded fails_def] validateInput_trace validateFees_trace
        validatePaymasterGasLimits_trace validateViewCallSucceeds_trace [of env req b g _ _ b' g'])

lemma validation_step:
  assumes pres: "preserves (extendsQuietly s) m"
    and ext: "extendsQuietly s s'"
    and rest: "\<And>x s''. \<not> fails m s' \<Longrightarrow> extendsQuietly s s''
                 \<Longrightarrow> fails (f x) s'' \<and> extendsQuietly s (fst (f x s''))"
  shows "fails (await m f) s' \<and> extendsQuietly s (fst (await m f s'))"
proof -
  obtain s'' r where m: "m s' = (s'', r)" by (cases "m s'")
  with pres ext have e: "extendsQuietly s s''"
    by (auto simp add: preserves_def)
  show ?thesis
  proof (cases r)
    case (Inl err)
    with m e show ?thesis by (simp add: fails_def await_def)
  next
    case (Inr x)
    with m have "\<not> fails m s'" by (simp add: fails_def)
    from rest [OF this e, of x] m Inr show ?thesis
      by (simp add: fails_def await_def)
  qed
qed

lemma fails_await_self: "fails (await self f) s = fails (f s) s"
  by (simp add: fails_def await_self)

lemma quiet_sentTransactions: "list_all quiet es \<Longrightarrow> sentTransactions es = []"
  by (induction es rule: sentTransactions.induct) (simp_all add: quiet_def)

lemma extendsQuietly_during:
  assumes "extendsQuietly s (fst (m s))"
  shows "sentTransactions (during m s) = []" and "list_all quiet (during m s)"
  using assms by (auto simp add: extendsQuietly_def during_def newEffects_def quiet_sentTransactions)

lemma admission_accepts_example:
  "sentTransactions (during (createRelayTransaction goodAdmissionEnv exampleRequest) runningServer)
     = [\<lparr>signer = ''0xworker'', serverAction = RELAY_CALL,
         txMethod = Some (relayCall 200000 (relayRequest exampleRequest) ''0xsig'' ''0x'' 280000),
         destination = ''0xhub'', value = None, gasLimit = 280000, txGasPrice = Some 20,
         creationBlockNumber = 100\<rparr>]"
  by code_simp



subsection \<open>Blocks already scanned\<close>

lemma addsQuietly_refl: "addsQuietly s s"
  by (simp add: addsQuietly_def)

lemma ignoresEffects_addsQuietly: "ignoresEffects quiet (addsQuietly s)"
  by (auto simp add: ignoresEffects_def addsQuietly_def)

lemma addsQuietly_during:
  assumes "addsQuietly s (fst (m s))"
  shows "sentTransactions (during m s) = []"
  using assms by (auto simp add: addsQuietly_def during_def newEffects_def quiet_sentTransactions)

lemma init_scanned:
  "lastScannedBlock (fst (init env s)) = lastScannedBlock s \<and> addsQuietly s (fst (init env s))"
proof -
  let ?I = "\<lambda>x. lastScannedBlock x = lastScannedBlock s \<and> addsQuietly s x"
  have "preserves ?I (init env)"
    by (rule preserves_init)
       (auto simp add: ignoresEffects_def ignores_def addsQuietly_def)
  moreover have "?I s" by (simp add: addsQuietly_refl)
  ultimately show ?thesis
    by (simp add: preserves_def)
qed

lemma await_eq_Inl: "m s = (s1, Inl e) \<Longrightarrow> await m f s = (s1, Inl e)"
  by (simp add: await_def)

lemma await_eq_Inr: "m s = (s1, Inr x) \<Longrightarrow> await m f s = f x s1"
  by (simp add: await_def)

lemma worker_scanned:
  assumes "blockNum \<le> lastScannedBlock s"
  shows "fails (worker env blockNum) s \<and> addsQuietly s (fst (worker env blockNum s))"
proof (cases "initialized s")
  case True
  with assms show ?thesis
    by (simp add: worker_def run_simps fails_def reject_def addsQuietly_refl)
next
  case False
  obtain s1 r where i: "init (initEnv env) s = (s1, r)"
    by (cases "init (initEnv env) s")
  from init_scanned [of "initEnv env" s] i
  have l: "lastScannedBlock s1 = lastScannedBlock s" and q: "addsQuietly s s1"
    by simp_all
  show ?thesis
  proof (cases r)
    case (Inl e)
    with i have "init (initEnv env) s = (s1, Inl e)" by simp
    note a = await_eq_Inl [of "init (initEnv env)" s s1 e, OF this]
    from False q show ?thesis
      by (simp add: worker_def await_self fails_def a)
  next
    case (Inr u)
    with i have "init (initEnv env) s = (s1, Inr u)" by simp
    note a = await_eq_Inr [of "init (initEnv env)" s s1 u, OF this]
    from False q l assms show ?thesis
      by (simp add: worker_def await_self fails_def reject_def a)
  qed
qed

lemma observe_scanned:
  assumes "getBlock_latest env = Inr b" and "b \<le> lastScannedBlock s"
  shows "observeLatestBlock env s
           = (s\<lparr>trace := trace s @ [Call ''contractInteractor.getBlock(latest)'']\<rparr>, Inr ())"
  using assms by (simp add: observeLatestBlock_def run_simps resolve_def)

lemma tick_scanned:
  assumes "getBlock_latest env = Inr b" and "b \<le> lastScannedBlock s"
  shows "sentTransactions (during (intervalHandler env) s) = []
       \<and> lastScannedBlock (fst (intervalHandler env s)) = lastScannedBlock s"
  using assms(2)
  by (simp add: observe_scanned [OF assms(1)] intervalHandler_def Let_def run_simps workerTimeout_callback_def andFinally_def
        orCatch_def record_effect_def during_def newEffects_def)


subsection \<open>The alerted state\<close>

lemma handleRejected_state:
  "handleTransactionRejectedByPaymasterEvent b s
     = (s\<lparr>alerted := True, alertedBlock := b,
          trace := trace s @ [LogError ''Relay entered alerted state.'']\<rparr>, Inr ())"
  by (simp add: handleTransactionRejectedByPaymasterEvent_def run_simps record_effect_def)

lemma handlePastHubEvents_alert:
  "alerted (fst (handlePastHubEvents b evs s)) = (rejectionAmong evs \<or> alerted s)
   \<and> alertedBlock (fst (handlePastHubEvents b evs s))
       = (if rejectionAmong evs then b else alertedBlock s)
   \<and> config (fst (handlePastHubEvents b evs s)) = config s"
proof (induction evs arbitrary: s)
  case Nil
  show ?case by (simp add: rejectionAmong_def resolve_def)
next
  case (Cons ev evs)
  show ?case
  proof (cases "event ev = TransactionRejectedByPaymaster")
    case True
    then show ?thesis
      using Cons.IH [of "s\<lparr>alerted := True, alertedBlock := b,
          trace := trace s @ [LogError ''Relay entered alerted state.'']\<rparr>"]
      by (simp add: await_eq_Inr [OF handleRejected_state] rejectionAmong_def)
  next
    case False
    then show ?thesis
      using Cons.IH [of s]
      by (simp add: await_resolve rejectionAmong_def)
  qed
qed

lemma returning_await_frame:
  assumes "preserves I m" and "\<And>x. returning I (f x) Q"
  shows "returning I (await m f) Q"
  using assms unfolding returning_def preserves_def await_def
  by (fastforce split: prod.splits sum.splits)

lemma returning_await_call_Inr:
  assumes "returning I (f v) Q" and "ignoresEffects anyEffect I"
  shows "returning I (await (call n (Inr v)) f) Q"
  using assms unfolding returning_def ignoresEffects_def
  by (simp add: await_call_Inr anyEffect) blast

lemma returning_handlePastHubEvents:
  "returning (alertFrame a ab c) (handlePastHubEvents b evs)
     (\<lambda>_. alertFrame (rejectionAmong evs \<or> a) (if rejectionAmong evs then b else ab) c)"
  unfolding returning_def alertFrame_def
  using handlePastHubEvents_alert [of b evs]
  by (metis fst_conv)

lemma alertFrame_ignores:
  "ignoresEffects anyEffect (alertFrame a ab c)"
  "ignores lastMinedActiveTransaction_update (alertFrame a ab c)"
  "ignores lastScannedBlock_update (alertFrame a ab c)"
  "ignores lastRefreshBlock_update (alertFrame a ab c)"
  "ignores ready_update (alertFrame a ab c)"
  "ignores srvGasPrice_update (alertFrame a ab c)"
  "ignores workerBalanceRequired_update (alertFrame a ab c)"
  by (simp_all add: ignoresEffects_def ignores_def alertFrame_def)

lemma handleChanges_alert:
  assumes evs: "getPastEventsForHub_answer env = Inr evs"
    and reg: "isRegistered_answer env = Inr True"
    and bal: "getWorkerBalance_final env = Inr wb"
    and enough: "workerMinBalance c \<le> wb"
  shows "returning (alertFrame a ab c) (handleChanges env b)
           (\<lambda>txs s'. alertedBlock s' = (if rejectionAmong evs then b else ab)
                    \<and> (alerted s' \<longleftrightarrow>
                          (rejectionAmong evs \<or> a)
                        \<and> \<not> (if rejectionAmong evs then b else ab) + alertedBlockDelay c < b))"
proof -
  note tr = alertFrame_ignores(1)
  note q = ignoresEffects_quiet [OF tr]
  show ?thesis
    unfolding handleChanges_def getAllHubEventsSinceLastScan_def
    apply (simp only: evs reg bal)
    apply (rule returning_await_call_Inr [OF _ tr])
    apply (rule returning_await_frame [OF preserves_shouldRegisterAgain [OF q alertFrame_ignores(2)]])
    apply (rule returning_await_frame [OF preserves_handlePastEvents [OF tr]])
    apply (rule returning_await_frame [OF preserves_call [OF tr]], simp add: anyEffect)
    apply (rule returning_await_frame [OF preserves_boost [OF q]])
    apply (rule returning_await_frame [OF preserves_assign], simp add: alertFrame_def)
    apply (rule returning_await_call_Inr [OF _ tr])
    apply (simp only: not_True_eq_False if_False)
    apply (rule returning_await [OF returning_handlePastHubEvents])
    apply (rule returning_await_frame [OF preserves_replenishServer [OF alertFrame_ignores(1) alertFrame_ignores(7)]])
    apply (rule returning_await_call_Inr [OF _ alertFrame_ignores(1)])
    using enough
    apply (auto simp add: returning_def alertFrame_def run_simps setReadyState_def resolve_def assign_def
             record_effect_def split: if_splits)
    done
qed

subsection \<open>Consecutive successful rounds\<close>

lemma intervalHandler_chainStart: "intervalHandler env s = promiseChain env (chainStart env s)"
  by (simp add: intervalHandler_as_chain chainStart_def)

lemma chainStart_fields:
  "lastSuccessfulRounds (chainStart env s) = (if timesOut env s then 0 else lastSuccessfulRounds s)"
  "config (chainStart env s) = config s"
  "lastScannedBlock (chainStart env s) = lastScannedBlock s"
  "workerSemaphoreOn (chainStart env s) = workerSemaphoreOn s"
  by (simp_all add: chainStart_def timesOut_def)

lemma workerSemaphore_law:
  assumes "\<not> workerSemaphoreOn s"
  shows "lastSuccessfulRounds (fst (workerSemaphore env b s))
           = (if isl (snd (workerSemaphore env b s)) then lastSuccessfulRounds s
              else increment (lastSuccessfulRounds s))"
proof -
  obtain s2 r where w: "worker env b (s\<lparr>workerSemaphoreOn := True\<rparr>) = (s2, r)"
    by (cases "worker env b (s\<lparr>workerSemaphoreOn := True\<rparr>)")
  from worker_counter [of env b "s\<lparr>workerSemaphoreOn := True\<rparr>"] w
  have k: "lastSuccessfulRounds s2 = lastSuccessfulRounds s"
    by simp
  from assms w k show ?thesis
    by (cases r)
       (auto simp add: workerSemaphore_def andFinally_def await_def self_def
          assign_def split: error.splits)
qed

lemma observeLatestBlock_law:
  "lastSuccessfulRounds (fst (observeLatestBlock env s))
     = (if roundStarts env s \<and> \<not> isl (snd (observeLatestBlock env s))
        then increment (lastSuccessfulRounds s) else lastSuccessfulRounds s)"
proof (cases "getBlock_latest env")
  case (Inl e)
  then show ?thesis
    by (simp add: observeLatestBlock_def run_simps roundStarts_def)
next
  case (Inr b)
  let ?s1 = "s\<lparr>trace := trace s @ [Call ''contractInteractor.getBlock(latest)'']\<rparr>"
  have o: "observeLatestBlock env s
             = (if lastScannedBlock s < b then workerSemaphore env b ?s1 else (?s1, Inr ()))"
    using Inr by (simp add: observeLatestBlock_def run_simps resolve_def)
  show ?thesis
  proof (cases "lastScannedBlock s < b \<and> \<not> workerSemaphoreOn s")
    case True
    with workerSemaphore_law [of ?s1 env b] o Inr show ?thesis
      by (simp add: roundStarts_def)
  next
    case False
    with o Inr show ?thesis
      by (auto simp add: roundStarts_def workerSemaphore_def await_self record_effect_def)
  qed
qed


lemma promiseChain_law:
  "lastSuccessfulRounds (fst (promiseChain env s))
     = (case snd (observeLatestBlock env s) of
          Inl (Error msg) \<Rightarrow> 0
        | Inl (ProcessExit code) \<Rightarrow> lastSuccessfulRounds s
        | Inr u \<Rightarrow> (if roundStarts env s then increment (lastSuccessfulRounds s)
                     else lastSuccessfulRounds s))"
proof -
  obtain s1 r where o: "observeLatestBlock env s = (s1, r)"
    by (cases "observeLatestBlock env s")
  from observeLatestBlock_law [of env s] o
  have k: "lastSuccessfulRounds s1
             = (if roundStarts env s \<and> \<not> isl r then increment (lastSuccessfulRounds s)
                else lastSuccessfulRounds s)"
    by simp
  from o k show ?thesis
    by (auto simp add: promiseChain_def andFinally_def orCatch_def catchWorkerError_def run_simps
          record_effect_def assign_def split: sum.splits error.splits prod.splits)
qed

lemma roundStarts_chainStart: "roundStarts env (chainStart env s) = roundStarts env s"
  by (simp add: roundStarts_def chainStart_fields split: sum.splits)

lemma intervalHandler_law:
  "lastSuccessfulRounds (fst (intervalHandler env s))
     = (case roundOf env s of
          Completed \<Rightarrow> increment (if timesOut env s then 0 else lastSuccessfulRounds s)
        | Failed \<Rightarrow> 0
        | Exited \<Rightarrow> (if timesOut env s then 0 else lastSuccessfulRounds s)
        | NoRound \<Rightarrow> (if timesOut env s then 0 else lastSuccessfulRounds s))"
  unfolding intervalHandler_chainStart promiseChain_law roundOf_def roundStarts_chainStart
    chainStart_fields
  by (simp split: sum.splits error.splits)


lemma increment_min:
  "increment (min (MAX_SAFE_INTEGER + 1) (int n)) = min (MAX_SAFE_INTEGER + 1) (int (Suc n))"
  by (simp add: increment_def MAX_SAFE_INTEGER_def min_def)

lemma intervalHandler_rounds_exact:
  assumes "lastSuccessfulRounds s = min (MAX_SAFE_INTEGER + 1) (int n)"
  shows "lastSuccessfulRounds (fst (intervalHandler env s))
           = min (MAX_SAFE_INTEGER + 1) (int (roundsAfterTick n env s))"
proof -
  have z: "(0::int) = min (MAX_SAFE_INTEGER + 1) (int 0)"
    by (simp add: MAX_SAFE_INTEGER_def)
  show ?thesis
    using assms increment_min [of n] increment_min [of 0]
    by (cases "roundOf env s")
       (simp_all add: intervalHandler_law roundsAfterTick_def MAX_SAFE_INTEGER_def)
qed

lemma run_Tick:
  "run (Tick env # rest) s =
     (case intervalHandler env s of
        (s', Inl (ProcessExit code)) \<Rightarrow> s'
      | (s', _) \<Rightarrow> run rest s')"
  by simp



lemma run_rounds_exact:
  "lastSuccessfulRounds s = min (MAX_SAFE_INTEGER + 1) (int n)
   \<Longrightarrow> lastSuccessfulRounds (run acts s)
         = min (MAX_SAFE_INTEGER + 1) (int (consecutiveRounds n acts s))"
proof (induction acts arbitrary: s n)
  case Nil
  then show ?case by simp
next
  case (Cons a rest)
  show ?case
  proof (cases a)
    case (Tick env)
    obtain s1 r where p: "intervalHandler env s = (s1, r)"
      by (cases "intervalHandler env s")
    from intervalHandler_rounds_exact [OF Cons.prems, of env] p
    have k: "lastSuccessfulRounds s1 = min (MAX_SAFE_INTEGER + 1) (int (roundsAfterTick n env s))"
      by simp
    show ?thesis
    proof (cases "\<exists>code. r = Inl (ProcessExit code)")
      case True
      with Tick p k show ?thesis by auto
    next
      case False
      with Tick p have "run (a # rest) s = run rest s1"
        and "consecutiveRounds n (a # rest) s = consecutiveRounds (roundsAfterTick n env s) rest s1"
        by (cases r; auto split: error.splits)+
      with Cons.IH [OF k] show ?thesis by simp
    qed
  next
    case (Relay env req)
    obtain s1 r where p: "perform (Relay env req) s = (s1, r)"
      by (cases "perform (Relay env req) s")
    from createRelayTransaction_counter [of env req s] p
    have "lastSuccessfulRounds s1 = lastSuccessfulRounds s"
      by (cases "createRelayTransaction env req s"; cases "snd (createRelayTransaction env req s)")
         (auto simp add: await_def resolve_def)
    with Cons.prems have k: "lastSuccessfulRounds s1 = min (MAX_SAFE_INTEGER + 1) (int n)" by simp
    show ?thesis
    proof (cases "\<exists>code. r = Inl (ProcessExit code)")
      case True
      with Relay p k show ?thesis by auto
    next
      case False
      with Relay p have "run (a # rest) s = run rest s1"
        and "consecutiveRounds n (a # rest) s = consecutiveRounds n rest s1"
        by (cases r; auto split: error.splits)+
      with Cons.IH [OF k] show ?thesis by simp
    qed
  qed
qed



lemma flaky_ticks_not_ready:
  "ticks flakyTicks = 3
   \<and> lastSuccessfulRounds (run flakyTicks zeroedServer) = 1
   \<and> consecutiveRounds 0 flakyTicks zeroedServer = 1
   \<and> \<not> isReady (run flakyTicks zeroedServer)"
proof -
  have t: "ticks flakyTicks = 3"
    by code_simp
  have c: "lastSuccessfulRounds (run flakyTicks zeroedServer) = 1"
    by code_simp
  have z: "lastSuccessfulRounds zeroedServer = 0"
    by code_simp
  have n: "successfulRoundsForReady (config zeroedServer) = 3"
    by code_simp
  from run_rounds_exact [of zeroedServer 0 flakyTicks] z c
  have r: "consecutiveRounds 0 flakyTicks zeroedServer = 1"
    by (simp add: MAX_SAFE_INTEGER_def min_def split: if_splits)
  from run_counter [of flakyTicks zeroedServer] c n
  have "\<not> isReady (run flakyTicks zeroedServer)"
    by (simp add: isReady_def)
  with t c r show ?thesis
    by simp
qed

section \<open>Properties of the admission pipeline\<close>

text \<open>
  C4. \<open>validateInput\<close>, on a server that holds its hub instance, throws exactly
  when the hub address of the request differs from the server's, or the relay
  worker of the request differs from the server's worker address once both are
  put in lower case, or the gas price of the request is strictly below the
  server's gas price; otherwise it returns normally and leaves the state as it
  was.
\<close>

theorem validateInput_throws_exactly:
  assumes "relayHubContract s = Some hub"
  shows "(fails (validateInput req) s \<longleftrightarrow>
            relayHubAddress (metadata req) \<noteq> hub
          \<or> toLowerCase (relayWorker (relayData (relayRequest req))) \<noteq> toLowerCase (workerAddress s)
          \<or> gasPrice (relayData (relayRequest req)) < srvGasPrice s)
       \<and> (\<not> fails (validateInput req) s \<longrightarrow> validateInput req s = (s, Inr ()))"
  using assms by (simp add: fails_def validateInput_def hubInstance_def self_def await_def resolve_def reject_def)

theorem validateInput_throws_exactly_witness:
  "relayHubContract runningServer = Some ''0xhub''
   \<and> \<not> fails (validateInput exampleRequest) runningServer
   \<and> validateInput exampleRequest runningServer = (runningServer, Inr ())"
  using validateInput_throws_exactly [of runningServer "''0xhub''" exampleRequest]
  by (simp add: runningServer_def exampleServer_def newRelayServer_def exampleRequest_def
        toLowerCase_def lowerChar_def)

text \<open>
  C8. For a request whose paymaster is trusted, \<open>validateFees\<close> returns normally
  without looking at the fees. For a request whose paymaster is not trusted it
  throws exactly when the percentage fee of the request is below the configured
  one or its base fee is below the configured one, and returns normally
  otherwise.
\<close>

theorem validateFees_trusted_or_fee_check:
  "(isTrustedPaymaster s (paymaster (relayData (relayRequest req)))
      \<longrightarrow> validateFees req s = (s, Inr ()))
   \<and> (\<not> isTrustedPaymaster s (paymaster (relayData (relayRequest req)))
      \<longrightarrow> (fails (validateFees req) s \<longleftrightarrow>
             pctRelayFee (relayData (relayRequest req)) < cfgPctRelayFee (config s)
           \<or> baseRelayFee (relayData (relayRequest req)) < cfgBaseRelayFee (config s))
        \<and> (\<not> fails (validateFees req) s \<longrightarrow> validateFees req s = (s, Inr ())))"
  by (simp add: fails_def validateFees_def self_def await_def resolve_def reject_def)

theorem validateFees_trusted_or_fee_check_witness:
  "isTrustedPaymaster trustingServer (paymaster (relayData (relayRequest cheapRequest)))
   \<and> validateFees cheapRequest trustingServer = (trustingServer, Inr ())
   \<and> \<not> isTrustedPaymaster runningServer (paymaster (relayData (relayRequest cheapRequest)))
   \<and> fails (validateFees cheapRequest) runningServer
   \<and> \<not> isTrustedPaymaster runningServer (paymaster (relayData (relayRequest exampleRequest)))
   \<and> \<not> fails (validateFees exampleRequest) runningServer
   \<and> validateFees exampleRequest runningServer = (runningServer, Inr ())"
  using validateFees_trusted_or_fee_check [of trustingServer cheapRequest]
        validateFees_trusted_or_fee_check [of runningServer cheapRequest]
        validateFees_trusted_or_fee_check [of runningServer exampleRequest]
  by (simp add: isTrustedPaymaster_def trustingServer_def runningServer_def exampleServer_def
        newRelayServer_def exampleConfig_def cheapRequest_def exampleRequest_def
        toLowerCase_def lowerChar_def)

section \<open>Properties of the replenishment\<close>

text \<open>
  C3, as the code has it. Take a pass of \<open>replenishServer\<close> on a server that
  holds its hub instance, in which the balances and the two questions to the
  store are answered, the worker balance is below \<open>workerMinBalance\<close>, and the
  withdrawal from the hub, when the pass makes one, goes through. If a transfer
  of value to the worker is already pending, the pass submits no transfer of
  value. Otherwise, with \<open>refill = workerTargetBalance - workerBalance\<close>, it
  submits one transfer of \<open>refill\<close> from the manager to the worker exactly when
  \<open>refill\<close> is below the manager balance, read again after the withdrawal step,
  minus \<open>managerMinBalance\<close>; and exactly when it is not, it emits
  \<open>fundingNeeded\<close>, logs an error and submits no transfer of value.
\<close>

theorem replenishServer_worker_step:
  assumes hub: "relayHubContract s = Some hub"
    and req: "requiredValue (workerBalanceRequired s) = workerMinBalance (config s)"
    and m1: "getManagerBalance_first env = Inr m1"
    and hb: "balanceOf_manager env = Inr hb"
    and wb: "getWorkerBalance_answer env = Inr wb"
    and low: "wb < workerMinBalance (config s)"
    and wp: "isWithdrawalPending_answer env = Inr wp"
    and wd: "m1 < managerTargetBalance (config s) \<and> minHubWithdrawalBalance (config s) \<le> hb \<and> \<not> wp
             \<longrightarrow> attemptEstimateGas_answer env = Inr estimate \<and> sendWithdraw_answer env = Inr sentW"
    and m2: "getManagerBalance_second env = Inr m2"
    and rp: "isReplenishPending_answer env = Inr pending"
    and refill: "refill = workerTargetBalance (config s) - wb"
  shows "valueTransfers (during (replenishServer env i b) s) =
           (if \<not> pending \<and> refill < m2 - managerMinBalance (config s)
            then [\<lparr>signer = managerAddress s, serverAction = VALUE_TRANSFER, txMethod = None,
                   destination = workerAddress s, value = Some refill,
                   gasLimit = mintxgascost env, txGasPrice = None, creationBlockNumber = b\<rparr>]
            else [])
       \<and> (Emit ''fundingNeeded'' \<in> set (during (replenishServer env i b) s)
           \<longleftrightarrow> \<not> pending \<and> \<not> refill < m2 - managerMinBalance (config s))
       \<and> (LogError ''== replenishServer: can't replenish: mgr balance too low''
           \<in> set (during (replenishServer env i b) s)
           \<longleftrightarrow> \<not> pending \<and> \<not> refill < m2 - managerMinBalance (config s))"
proof -
  note base = hub req m1 hb wb low wp m2 rp refill
  note defs = during_def newEffects_def replenishServer_def setWorkerBalance_def valueTransfers_def
  note steps = run_simps await_hubInstance fst_await_sendTransaction_resolve isSatisfied_def Let_def
  consider
      (withdraws) "m1 < managerTargetBalance (config s)" "minHubWithdrawalBalance (config s) \<le> hb" "\<not> wp"
    | (enough) "\<not> m1 < managerTargetBalance (config s)"
    | (little) "\<not> minHubWithdrawalBalance (config s) \<le> hb"
    | (pending) "wp"
    by blast
  then show ?thesis
  proof cases
    case withdraws
    with wd have "attemptEstimateGas_answer env = Inr estimate" "sendWithdraw_answer env = Inr sentW"
      by simp_all
    with withdraws base show ?thesis unfolding defs by (simp add: steps)
  next
    case enough
    with base show ?thesis unfolding defs by (simp add: steps)
  next
    case little
    with base show ?thesis unfolding defs by (simp add: steps)
  next
    case pending
    with base show ?thesis unfolding defs by (simp add: steps)
  qed
qed

theorem replenishServer_worker_step_witness:
  "relayHubContract runningServer = Some ''0xhub''
   \<and> getWorkerBalance_answer fundedEnv = Inr 50
   \<and> 50 < workerMinBalance (config runningServer)
   \<and> isReplenishPending_answer fundedEnv = Inr False
   \<and> valueTransfers (during (replenishServer fundedEnv 0 100) runningServer) =
       [\<lparr>signer = ''0xmanager'', serverAction = VALUE_TRANSFER, txMethod = None,
         destination = ''0xworker'', value = Some 250, gasLimit = 21000, txGasPrice = None,
         creationBlockNumber = 100\<rparr>]
   \<and> Emit ''fundingNeeded'' \<notin> set (during (replenishServer fundedEnv 0 100) runningServer)"
  using replenishServer_worker_step [where s = runningServer and hub = "''0xhub''" and env = fundedEnv
      and ?m1.0 = 150 and hb = 500 and wb = 50 and wp = False and estimate = 60000
      and sentW = "\<lparr>transactionHash = ''0xw1'', signedTx = ''0xsignedw1''\<rparr>"
      and ?m2.0 = 900 and pending = False and refill = 250 and i = 0 and b = 100]
  by (simp add: example_defs)

text \<open>
  C3, as stated, fails in its last clause: in a pass that emits \<open>fundingNeeded\<close>
  a transaction can still be submitted, the withdrawal of the manager's deposit
  from the hub. Here the worker is below its minimum, no transfer is pending and
  the refill of 250 is not below the 50 the manager can spare.
\<close>

theorem replenishServer_fundingNeeded_counterexample:
  "getWorkerBalance_answer lowFundsEnv = Inr 50
   \<and> 50 < workerMinBalance (config runningServer)
   \<and> isReplenishPending_answer lowFundsEnv = Inr False
   \<and> \<not> workerTargetBalance (config runningServer) - 50 < 150 - managerMinBalance (config runningServer)
   \<and> Emit ''fundingNeeded'' \<in> set (during (replenishServer lowFundsEnv 0 100) runningServer)
   \<and> sentTransactions (during (replenishServer lowFundsEnv 0 100) runningServer) =
       [\<lparr>signer = ''0xmanager'', serverAction = DEPOSIT_WITHDRAWAL,
         txMethod = Some (withdraw 500 ''0xmanager''), destination = ''0xhub'', value = None,
         gasLimit = 60000, txGasPrice = None, creationBlockNumber = 100\<rparr>]"
  by (simp add: during_def newEffects_def replenishServer_def setWorkerBalance_def
        run_simps await_hubInstance fst_await_sendTransaction_resolve isSatisfied_def Let_def
        example_defs)

section \<open>Properties of the initialisation\<close>

lemma init_returns_initialized: "returning (\<lambda>_. True) (init env) (\<lambda>_ s'. initialized s')"
  unfolding init_def
  apply (rule returning_await_any)
  apply (rule returning_if)
   apply (rule returning_reject)
  apply (rule returning_await_any)
  apply (rule returning_await_any)
  apply (rule returning_await_any)
  apply (rule returning_await_any)
  apply (rule returning_await_any)
  apply (rule returning_await_any)
  apply (rule returning_await_any)
  apply (rule returning_await_any)
  apply (rule returning_await_any)
  apply (rule returning_await_any)
  apply (rule returning_await_any)
  apply (rule returning_await_any)
  apply (rule returning_await_any)
  apply (simp add: returning_def await_assign call_def)
  done

lemma init_example_returns: "snd (init goodInitEnv exampleServer) = Inr ()"
  by (simp add: init_def initTrustedPaymasters_def run_simps example_defs call_def)

text \<open>
  C10. After a call of \<open>init\<close> that returned normally, a second call, whatever
  the collaborators would answer, throws \<open>_init was already called\<close> and leaves
  the whole state as it was, the trace included: no step of the initialisation
  is performed.
\<close>

theorem init_second_call_throws:
  assumes "init env s = (s1, Inr ())"
  shows "init env' s1 = (s1, Inl (Error ''_init was already called''))"
proof -
  have "initialized s1"
    using init_returns_initialized [of env] assms by (simp add: returning_def)
  then show ?thesis
    by (simp add: init_def await_self reject_def)
qed

theorem init_second_call_throws_witness:
  "snd (init goodInitEnv exampleServer) = Inr ()
   \<and> init goodInitEnv (fst (init goodInitEnv exampleServer))
       = (fst (init goodInitEnv exampleServer), Inl (Error ''_init was already called''))"
  using init_second_call_throws
          [of goodInitEnv exampleServer "fst (init goodInitEnv exampleServer)" goodInitEnv]
        init_example_returns
  by (metis prod.collapse)

section \<open>Properties of the readiness\<close>




section \<open>Properties of the watchdog\<close>

text \<open>
  C9. In \<open>devMode\<close> a tick is its promise chain and nothing else: no timer is
  set, and whether the time of \<open>readyTimeout\<close> runs out makes no difference to
  the tick, so the counter is never reset by the watchdog. Outside \<open>devMode\<close>
  the tick sets the timer, and when the time runs out during the tick the
  callback sets \<open>lastSuccessfulRounds\<close> to 0 before the chain goes on; the tick
  then ends with the counter at most 1.
\<close>

theorem watchdog_armed_unless_devMode:
  "(devMode (config s) \<longrightarrow>
      intervalHandler env s = promiseChain env s
    \<and> intervalHandler (env\<lparr>readyTimeout_elapses := e\<rparr>) s = intervalHandler env s)
   \<and> (\<not> devMode (config s) \<and> readyTimeout_elapses env \<longrightarrow>
      intervalHandler env s =
        promiseChain env
          (s\<lparr>trace := trace s @ [SetTimeout (readyTimeout (config s)),
                                  LogWarn ''Relay state: Timed-out''],
             lastSuccessfulRounds := 0\<rparr>)
    \<and> lastSuccessfulRounds (fst (intervalHandler env s)) \<le> 1)
   \<and> (\<not> devMode (config s) \<and> \<not> readyTimeout_elapses env \<longrightarrow>
      intervalHandler env s =
        promiseChain env (s\<lparr>trace := trace s @ [SetTimeout (readyTimeout (config s))]\<rparr>))"
proof -
  have same: "promiseChain (env\<lparr>readyTimeout_elapses := e\<rparr>) = promiseChain env"
    by (simp add: promiseChain_def tick_defs cong del: if_weak_cong)
  have "lastSuccessfulRounds
          (fst (promiseChain env
             (s\<lparr>trace := trace s @ [SetTimeout (readyTimeout (config s)),
                                     LogWarn ''Relay state: Timed-out''],
                lastSuccessfulRounds := 0\<rparr>))) \<le> 1"
    using tickChain_counter
            [of env "s\<lparr>trace := trace s @ [SetTimeout (readyTimeout (config s)),
                                           LogWarn ''Relay state: Timed-out''],
                      lastSuccessfulRounds := 0\<rparr>"]
    by (simp add: promiseChain_def)
  with same show ?thesis
    by (simp add: intervalHandler_as_chain)
qed

theorem watchdog_armed_unless_devMode_witness:
  "devMode (config devServer)
   \<and> intervalHandler slowTickEnv devServer = promiseChain slowTickEnv devServer
   \<and> \<not> devMode (config exampleServer) \<and> readyTimeout_elapses slowTickEnv
   \<and> lastSuccessfulRounds (fst (intervalHandler slowTickEnv exampleServer)) \<le> 1
   \<and> \<not> devMode (config exampleServer) \<and> \<not> readyTimeout_elapses goodTickEnv
   \<and> intervalHandler goodTickEnv exampleServer =
       promiseChain goodTickEnv
         (exampleServer\<lparr>trace := trace exampleServer @ [SetTimeout (readyTimeout (config exampleServer))]\<rparr>)"
proof -
  have d: "devMode (config devServer)" "\<not> devMode (config exampleServer)"
    by (simp_all add: devServer_def exampleServer_def newRelayServer_def exampleConfig_def)
  have e: "readyTimeout_elapses slowTickEnv" "\<not> readyTimeout_elapses goodTickEnv"
    by (simp_all add: slowTickEnv_def goodTickEnv_def)
  from d e
    watchdog_armed_unless_devMode [of devServer slowTickEnv True]
    watchdog_armed_unless_devMode [of exampleServer slowTickEnv True]
    watchdog_armed_unless_devMode [of exampleServer goodTickEnv True]
  show ?thesis by blast
qed


subsection \<open>Admission purity\<close>

text \<open>
  Claim C1. For every request and every answer of the collaborators: if
  \<open>isReady()\<close> is false, or one of the validations of
  \<open>createRelayTransaction\<close> fails (the input types; \<open>validateInput\<close>, which
  checks the hub address, the worker address and the gas price; the fees; the
  maximal nonce; the gas limits of the paymaster; the view call), then
  \<open>createRelayTransaction\<close> throws and \<open>sendTransaction\<close> is not called during
  the call: the state is the one before the call with only quiet effects (reads
  of the collaborators) added to the trace.
\<close>

theorem createRelayTransaction_admission_purity:
  assumes "\<not> isReady s
         \<or> fails (validateInputTypes env req) s
         \<or> fails (validateInput req) s
         \<or> fails (validateFees req) s
         \<or> fails (validateMaxNonce env (relayMaxNonce (metadata req))) s
         \<or> fails (validatePaymasterGasLimits env req) s
         \<or> fails (validateViewCallSucceeds env req budget maxPossibleGas) s"
  shows "fails (createRelayTransaction env req) s
       \<and> sentTransactions (during (createRelayTransaction env req) s) = []
       \<and> extendsQuietly s (fst (createRelayTransaction env req s))"
proof -
  note q = ignoresEffects_extendsQuietly
  have "fails (createRelayTransaction env req) s
       \<and> extendsQuietly s (fst (createRelayTransaction env req s))"
  proof (cases "isReady s")
    case False
    then show ?thesis
      by (simp add: createRelayTransaction_def await_self fails_def reject_def extendsQuietly_refl)
  next
    case True
    show ?thesis
      unfolding createRelayTransaction_def
      apply (simp only: fails_await_self await_self True not_True_eq_False if_False)
      apply (rule validation_step [OF preserves_validateInputTypes extendsQuietly_refl])
      apply (rule validation_step [OF preserves_validateInput], assumption)
      apply (rule validation_step [OF preserves_validateFees], assumption)
      apply (rule validation_step [OF preserves_validateMaxNonce [OF q]], assumption)
      apply (rule validation_step [OF preserves_validatePaymasterGasLimits [OF q]], assumption)
      apply (rule validation_step [OF preserves_validateViewCallSucceeds [OF q]], assumption)
      using assms True
      apply (simp add: extendsQuietly_fails(1-5) [where s = s]
          extendsQuietly_fails(6) [where s = s and b' = budget and g' = maxPossibleGas])
      done
  qed
  then show ?thesis
    by (simp add: extendsQuietly_during)
qed

theorem createRelayTransaction_admission_purity_witness:
  "isReady runningServer
   \<and> fails (validateViewCallSucceeds rejectingAdmissionEnv exampleRequest 0 0) runningServer
   \<and> fails (createRelayTransaction rejectingAdmissionEnv exampleRequest) runningServer
   \<and> sentTransactions (during (createRelayTransaction rejectingAdmissionEnv exampleRequest) runningServer) = []"
proof -
  have r: "isReady runningServer"
    by code_simp
  have f: "fails (validateViewCallSucceeds rejectingAdmissionEnv exampleRequest 0 0) runningServer"
    by code_simp
  from createRelayTransaction_admission_purity
         [of runningServer rejectingAdmissionEnv exampleRequest 0 0] f r
  show ?thesis
    by blast
qed

subsection \<open>The registration hint\<close>

text \<open>
  Claim C6, as the code has it. When \<open>_shouldRegisterAgain\<close> returns, the hint
  is true exactly when the registration block rate is not zero, no
  \<open>RELAY_CALL\<close> and no \<open>REGISTER_SERVER\<close> transaction is pending, and
  \<open>currentBlock - lastRelayEventBlock \<ge> registrationBlockRate\<close>, where
  \<open>lastRelayEventBlock\<close> is the block of the latest relay event of the manager
  and \<open>-1\<close> when there is none.
\<close>

theorem shouldRegisterAgain_hint:
  assumes "shouldRegisterAgain env currentBlock events s = (s', Inr hint)"
  shows "hint \<longleftrightarrow>
           registrationBlockRate (config s) \<noteq> 0 \<and> \<not> pendingActivity env
           \<and> registrationBlockRate (config s) \<le> currentBlock - lastRelayEventBlock env events s"
  using assms
  unfolding shouldRegisterAgain_def getLatestTxBlockNumber_def queryLatestActiveEvent_def
    pendingActivity_def lastRelayEventBlock_def latestRelayEvent_def
  by (cases "isRelayCallPending_answer env"; cases "isRegisterServerPending_answer env";
      cases "queryLatestActiveEvent_answer env"; cases "getLatestEventData events";
      cases "lastMinedActiveTransaction s";
      auto simp add: run_simps Let_def split: if_splits option.splits)

theorem shouldRegisterAgain_hint_witness:
  "snd (shouldRegisterAgain goodTickEnv 100 [] rateServer) = Inr True
   \<and> registrationBlockRate (config rateServer) = 10
   \<and> \<not> pendingActivity goodTickEnv
   \<and> lastRelayEventBlock goodTickEnv [] rateServer = 50"
proof -
  have r: "snd (shouldRegisterAgain goodTickEnv 100 [] rateServer) = Inr True"
    by code_simp
  have c: "registrationBlockRate (config rateServer) = 10"
    by code_simp
  have b: "lastRelayEventBlock goodTickEnv [] rateServer = 50"
    by code_simp
  from r have "shouldRegisterAgain goodTickEnv 100 [] rateServer
                 = (fst (shouldRegisterAgain goodTickEnv 100 [] rateServer), Inr True)"
    by (metis prod.collapse)
  from shouldRegisterAgain_hint [OF this] r c b show ?thesis
    by simp
qed

text \<open>
  Claim C6, as the spec has it, fails while a relay call is pending: at block
  100 with a rate of 10 and the latest relay event at block 50, the hint is
  false although \<open>100 - 50 \<ge> 10\<close>.
\<close>

theorem shouldRegisterAgain_pending_counterexample:
  "snd (shouldRegisterAgain pendingRelayCallEnv 100 [] rateServer) = Inr False
   \<and> registrationBlockRate (config rateServer)
       \<le> 100 - lastRelayEventBlock pendingRelayCallEnv [] rateServer"
  by code_simp

subsection \<open>Ticks on a block already scanned\<close>

text \<open>
  Claim C5, as the code has it. Let \<open>b\<close> be a block not past
  \<open>lastScannedBlock\<close>. A tick that observes \<open>b\<close> as the latest block does not
  invoke the worker: its promise only asks for the latest block, the tick
  submits nothing and leaves \<open>lastScannedBlock\<close> as it is. An invocation of the
  worker for \<open>b\<close> throws and submits nothing. So a second run on a block submits
  nothing once the first run has recorded the block as scanned.
\<close>

theorem scanned_block_submits_nothing:
  assumes "b \<le> lastScannedBlock s"
  shows "(getBlock_latest env = Inr b \<longrightarrow>
            observeLatestBlock env s
              = (s\<lparr>trace := trace s @ [Call ''contractInteractor.getBlock(latest)'']\<rparr>, Inr ())
          \<and> sentTransactions (during (intervalHandler env) s) = []
          \<and> lastScannedBlock (fst (intervalHandler env s)) = lastScannedBlock s)
       \<and> fails (worker env b) s
       \<and> sentTransactions (during (worker env b) s) = []"
  using assms worker_scanned [OF assms, of env]
  by (simp add: observe_scanned tick_scanned addsQuietly_during)

theorem scanned_block_submits_nothing_witness:
  "map serverAction (sentTransactions (during (intervalHandler fundingTickEnv) runningServer))
     = [DEPOSIT_WITHDRAWAL, VALUE_TRANSFER]
   \<and> lastScannedBlock (fst (intervalHandler fundingTickEnv runningServer)) = 100
   \<and> getBlock_latest fundingTickEnv = Inr 100
   \<and> sentTransactions (during (intervalHandler fundingTickEnv)
                           (fst (intervalHandler fundingTickEnv runningServer))) = []
   \<and> fails (worker fundingTickEnv 100) (fst (intervalHandler fundingTickEnv runningServer))"
proof -
  have first: "map serverAction (sentTransactions (during (intervalHandler fundingTickEnv) runningServer))
                 = [DEPOSIT_WITHDRAWAL, VALUE_TRANSFER]"
    by code_simp
  have scanned: "lastScannedBlock (fst (intervalHandler fundingTickEnv runningServer)) = 100"
    by code_simp
  have latest: "getBlock_latest fundingTickEnv = Inr 100"
    by code_simp
  from scanned have "100 \<le> lastScannedBlock (fst (intervalHandler fundingTickEnv runningServer))"
    by simp
  from scanned_block_submits_nothing [OF this, of fundingTickEnv] first scanned latest
  show ?thesis
    by blast
qed

text \<open>
  Claim C5, as the spec has it, fails when the first run does not get as far as
  recording the block: a tick at block 100 that cannot fetch the gas price
  leaves \<open>lastScannedBlock\<close> at 0, and the next tick at block 100 withdraws
  from the hub and funds the worker.
\<close>

theorem second_tick_same_block_counterexample:
  "getBlock_latest failedTickEnv = Inr 100
   \<and> getBlock_latest fundingTickEnv = Inr 100
   \<and> sentTransactions (during (intervalHandler failedTickEnv) runningServer) = []
   \<and> lastScannedBlock (fst (intervalHandler failedTickEnv runningServer)) = 0
   \<and> map serverAction
        (sentTransactions (during (intervalHandler fundingTickEnv)
                             (fst (intervalHandler failedTickEnv runningServer))))
       = [DEPOSIT_WITHDRAWAL, VALUE_TRANSFER]"
  by code_simp

subsection \<open>Entering and leaving the alerted state\<close>

text \<open>
  Claim C7, as the code has it. Handling a \<open>TransactionRejectedByPaymaster\<close>
  event at block \<open>b\<close> sets \<open>alerted\<close> and sets \<open>alertedBlock\<close> to \<open>b\<close>, and so
  does \<open>handlePastHubEvents\<close> when such an event is among the scanned ones.
  When \<open>_handleChanges\<close> at block \<open>b\<close> runs to its last check (nothing throws,
  the relay is registered and the worker holds its minimal balance), it leaves
  \<open>alerted\<close> set exactly when it was set before or a rejection was scanned, and
  \<open>alertedBlock + alertedBlockDelay < b\<close> does not hold; so on such a tick with
  no new rejection an alert with \<open>alertedBlock + alertedBlockDelay < b\<close> is
  cleared.
\<close>

theorem alerted_set_and_cleared:
  assumes run: "handleChanges env b s = (s', Inr txs)"
    and evs: "getPastEventsForHub_answer env = Inr evs"
    and reg: "isRegistered_answer env = Inr True"
    and bal: "getWorkerBalance_final env = Inr wb"
    and enough: "workerMinBalance (config s) \<le> wb"
  shows "fst (handleTransactionRejectedByPaymasterEvent b s)
           = s\<lparr>alerted := True, alertedBlock := b,
                trace := trace s @ [LogError ''Relay entered alerted state.'']\<rparr>
       \<and> alerted (fst (handlePastHubEvents b evs s)) = (rejectionAmong evs \<or> alerted s)
       \<and> alertedBlock (fst (handlePastHubEvents b evs s))
           = (if rejectionAmong evs then b else alertedBlock s)
       \<and> alertedBlock s' = (if rejectionAmong evs then b else alertedBlock s)
       \<and> (alerted s' \<longleftrightarrow>
             (rejectionAmong evs \<or> alerted s)
           \<and> \<not> (if rejectionAmong evs then b else alertedBlock s)
                   + alertedBlockDelay (config s) < b)"
proof -
  have "alertFrame (alerted s) (alertedBlock s) (config s) s"
    by (simp add: alertFrame_def)
  with handleChanges_alert [OF evs reg bal enough, of "alerted s" "alertedBlock s" b] run
  have "alertedBlock s' = (if rejectionAmong evs then b else alertedBlock s)
       \<and> (alerted s' \<longleftrightarrow>
             (rejectionAmong evs \<or> alerted s)
           \<and> \<not> (if rejectionAmong evs then b else alertedBlock s)
                   + alertedBlockDelay (config s) < b)"
    unfolding returning_def by blast
  with handlePastHubEvents_alert [of b evs s] show ?thesis
    by (simp add: handleRejected_state)
qed

theorem alerted_set_and_cleared_witness:
  "alerted (fst (handleChanges rejectionTickEnv 600 runningServer))
   \<and> alertedBlock (fst (handleChanges rejectionTickEnv 600 runningServer)) = 600
   \<and> alerted alertedServer
   \<and> alertedBlock alertedServer + alertedBlockDelay (config alertedServer) = 620
   \<and> \<not> alerted (fst (handleChanges tick621 621 alertedServer))"
proof -
  have run1: "handleChanges rejectionTickEnv 600 runningServer
                = (fst (handleChanges rejectionTickEnv 600 runningServer), Inr [])"
  proof -
    have "snd (handleChanges rejectionTickEnv 600 runningServer) = Inr []"
      by code_simp
    then show ?thesis
      by (metis prod.collapse)
  qed
  have evs1: "getPastEventsForHub_answer rejectionTickEnv = Inr [rejectedEvent]"
    by code_simp
  have reg1: "isRegistered_answer rejectionTickEnv = Inr True"
    by code_simp
  have bal1: "getWorkerBalance_final rejectionTickEnv = Inr 300"
    by code_simp
  have enough1: "workerMinBalance (config runningServer) \<le> 300"
    by code_simp
  have rej1: "rejectionAmong [rejectedEvent]"
    by code_simp
  have delay1: "alertedBlockDelay (config runningServer) = 20"
    by code_simp
  have run2: "handleChanges tick621 621 alertedServer
                = (fst (handleChanges tick621 621 alertedServer), Inr [])"
  proof -
    have "snd (handleChanges tick621 621 alertedServer) = Inr []"
      by code_simp
    then show ?thesis
      by (metis prod.collapse)
  qed
  have evs2: "getPastEventsForHub_answer tick621 = Inr []"
    by code_simp
  have reg2: "isRegistered_answer tick621 = Inr True"
    by code_simp
  have bal2: "getWorkerBalance_final tick621 = Inr 300"
    by code_simp
  have enough2: "workerMinBalance (config alertedServer) \<le> 300"
    by code_simp
  have rej2: "\<not> rejectionAmong []"
    by code_simp
  have a2: "alerted alertedServer"
    by code_simp
  have ab2: "alertedBlock alertedServer = 600"
    by code_simp
  have delay2: "alertedBlockDelay (config alertedServer) = 20"
    by code_simp
  from alerted_set_and_cleared [OF run1 evs1 reg1 bal1 enough1] rej1 delay1
  have first: "alerted (fst (handleChanges rejectionTickEnv 600 runningServer))
             \<and> alertedBlock (fst (handleChanges rejectionTickEnv 600 runningServer)) = 600"
    by simp
  from alerted_set_and_cleared [OF run2 evs2 reg2 bal2 enough2] rej2 a2 ab2 delay2
  have second: "\<not> alerted (fst (handleChanges tick621 621 alertedServer))"
    by simp
  from first second a2 ab2 delay2 show ?thesis
    by simp
qed

text \<open>
  Claim C7, as the spec has it, fails on ticks that do not get to the last check
  of \<open>_handleChanges\<close>. After the rejection scanned at block 600, with a delay
  of 20: the tick at block 621 that finds the worker below its minimal balance
  ends with \<open>alerted\<close> still set; and after a tick at block 620, the tick at
  block 621 is not due for a refresh of the state and leaves \<open>alerted\<close> set too.
\<close>

theorem alerted_not_cleared_counterexample:
  "alerted alertedServer
   \<and> alertedBlock alertedServer + alertedBlockDelay (config alertedServer) < 621
   \<and> getBlock_latest poorWorkerTick621 = Inr 621
   \<and> snd (intervalHandler poorWorkerTick621 alertedServer) = Inr ()
   \<and> alerted (fst (intervalHandler poorWorkerTick621 alertedServer))
   \<and> alerted (fst (intervalHandler tick620 alertedServer))
   \<and> alertedBlock (fst (intervalHandler tick620 alertedServer))
       + alertedBlockDelay (config (fst (intervalHandler tick620 alertedServer))) < 621
   \<and> getBlock_latest tick621 = Inr 621
   \<and> snd (intervalHandler tick621 (fst (intervalHandler tick620 alertedServer))) = Inr ()
   \<and> alerted (fst (intervalHandler tick621 (fst (intervalHandler tick620 alertedServer))))"
  by code_simp

end
